theory Spec2Isabelle
  imports Complex_Main "HOL-Library.Log_Nat"
begin

section \<open>JavaScript values and string primitives\<close>

text \<open>
  The header-evaluation engine of SecurityHeaderX (\<^verbatim>\<open>src/core/scanner.js\<close>, the validators
  under \<^verbatim>\<open>src/headers/\<close> and the tables of \<^verbatim>\<open>config.js\<close>) is embedded function by
  function. Conventions of the embedding:

  \<^item> A header value is a string or, for repeated headers, an array of strings (\<open>hval\<close>).
    Strings are lists of 8-bit characters, which is what Node's HTTP parser delivers
    (header bytes decoded as Latin-1).
  \<^item> JavaScript numbers are IEEE 754 doubles. A finite double is the rational it denotes;
    every arithmetic operation of the source rounds its exact result to the nearest double,
    ties to even (\<open>fl\<close>, section "Numbers"), and a decimal literal such as \<^verbatim>\<open>0.8\<close>
    denotes the double nearest to it.
  \<^item> A thrown exception is the \<open>Inl\<close> branch of a sum (\<open>exn + 'a\<close>).
  \<^item> \<^verbatim>\<open>JSON.parse\<close> and the string-to-number coercion of \<^verbatim>\<open><\<close> belong to the
    JavaScript runtime, not to the repository; they are parameters (\<open>js_runtime\<close>).
  \<^item> The free-text \<^verbatim>\<open>recommendation\<close> fields, the timestamp, \<^verbatim>\<open>console.log\<close> output and
    the \<^verbatim>\<open>scoreLog\<close> (read only by the verbose printout) are left out: no control flow
    depends on them.
\<close>

datatype rating = High | Medium | Low | Info

datatype hval = Str string | Arr "string list"

datatype exn = TypeError | SyntaxError

definition dquote :: string where
  "dquote = [CHR 0x22]"

definition squote :: string where
  "squote = [CHR 0x27]"

text \<open>Truthiness of a header value: only the empty string is falsy; every array is truthy.\<close>

fun truthy :: "hval \<Rightarrow> bool" where
  "truthy (Str s) = (s \<noteq> [])"
| "truthy (Arr xs) = True"

fun join :: "string \<Rightarrow> string list \<Rightarrow> string" where
  "join sep [] = []"
| "join sep [x] = x"
| "join sep (x # y # ys) = x @ sep @ join sep (y # ys)"

text \<open>\<^verbatim>\<open>String(value)\<close>: an array is joined with commas.\<close>

fun toString :: "hval \<Rightarrow> string" where
  "toString (Str s) = s"
| "toString (Arr xs) = join '','' xs"

primrec startsWith :: "string \<Rightarrow> string \<Rightarrow> bool" where
  "startsWith [] s = True"
| "startsWith (p # ps) s = (case s of [] \<Rightarrow> False | c # cs \<Rightarrow> p = c \<and> startsWith ps cs)"

text \<open>\<^verbatim>\<open>String.prototype.includes\<close>: substring test.\<close>

primrec js_includes :: "string \<Rightarrow> string \<Rightarrow> bool" where
  "js_includes [] n = (n = [])"
| "js_includes (c # cs) n = (startsWith n (c # cs) \<or> js_includes cs n)"

text \<open>
  \<^verbatim>\<open>value.includes(x)\<close> on a header value: substring test on a string, membership test
  (\<^verbatim>\<open>Array.prototype.includes\<close>) on an array.
\<close>

fun value_includes :: "hval \<Rightarrow> string \<Rightarrow> bool" where
  "value_includes (Str s) n = js_includes s n"
| "value_includes (Arr xs) n = (n \<in> set xs)"

text \<open>A method that only strings have (\<^verbatim>\<open>match\<close>, \<^verbatim>\<open>split\<close>, \<^verbatim>\<open>toUpperCase\<close>, ...): calling
  it on an array throws a TypeError.\<close>

definition str_method :: "hval \<Rightarrow> (string \<Rightarrow> exn + 'a) \<Rightarrow> exn + 'a" where
  "str_method v f = (case v of Str s \<Rightarrow> f s | Arr xs \<Rightarrow> Inl TypeError)"

definition isDigit :: "char \<Rightarrow> bool" where
  "isDigit c = (48 \<le> (of_char c :: nat) \<and> (of_char c :: nat) \<le> 57)"

definition isWhiteSpace :: "char \<Rightarrow> bool" where
  "isWhiteSpace c = ((of_char c :: nat) \<in> {9, 10, 11, 12, 13, 32, 160})"

text \<open>
  \<^verbatim>\<open>toLowerCase\<close> on Latin-1: \<open>A\<close>--\<open>Z\<close> and the accented capitals \<open>0xC0\<close>--\<open>0xDE\<close> (except the
  multiplication sign \<open>0xD7\<close>) gain bit 5.
\<close>

definition lowerChar :: "char \<Rightarrow> char" where
  "lowerChar c =
     (let n = (of_char c :: nat)
      in if (65 \<le> n \<and> n \<le> 90) \<or> (192 \<le> n \<and> n \<le> 222 \<and> n \<noteq> 215)
         then (case c of Char b0 b1 b2 b3 b4 b5 b6 b7 \<Rightarrow> Char b0 b1 b2 b3 b4 True b6 b7)
         else c)"

definition toLowerCase :: "string \<Rightarrow> string" where
  "toLowerCase s = map lowerChar s"

text \<open>
  \<^verbatim>\<open>toUpperCase\<close> on Latin-1: \<open>a\<close>--\<open>z\<close> and \<open>0xE0\<close>--\<open>0xFE\<close> (except the division sign
  \<open>0xF7\<close>) lose bit 5; the sharp s \<open>0xDF\<close> becomes \<open>SS\<close>. The capitals of \<open>0xB5\<close> and
  \<open>0xFF\<close> lie outside Latin-1; they are left in place, which cannot change a comparison
  with an ASCII word.
\<close>

definition upperChar :: "char \<Rightarrow> string" where
  "upperChar c =
     (let n = (of_char c :: nat)
      in if (97 \<le> n \<and> n \<le> 122) \<or> (224 \<le> n \<and> n \<le> 254 \<and> n \<noteq> 247)
         then (case c of Char b0 b1 b2 b3 b4 b5 b6 b7 \<Rightarrow> [Char b0 b1 b2 b3 b4 False b6 b7])
         else if n = 223 then ''SS''
         else [c])"

definition toUpperCase :: "string \<Rightarrow> string" where
  "toUpperCase s = concat (map upperChar s)"

text \<open>\<^verbatim>\<open>trim\<close> removes white space at both ends.\<close>

definition trim :: "string \<Rightarrow> string" where
  "trim s = rev (dropWhile isWhiteSpace (rev (dropWhile isWhiteSpace s)))"

text \<open>
  \<^verbatim>\<open>str.split(d)\<close> for a one-character separator. The result is never empty, so the
  last branch is not reached.
\<close>

fun split :: "char \<Rightarrow> string \<Rightarrow> string list" where
  "split d [] = [[]]"
| "split d (c # cs) =
     (if c = d then [] # split d cs
      else (case split d cs of p # ps \<Rightarrow> (c # p) # ps | [] \<Rightarrow> [[c]]))"

text \<open>
  \<^verbatim>\<open>parseInt(str)\<close> without a radix: leading white space, an optional sign, an optional
  \<^verbatim>\<open>0x\<close> prefix, then the longest run of digits of the radix. \<open>None\<close> is \<^verbatim>\<open>NaN\<close>. The
  result is kept as the exact integer: the validators only compare it with \<open>31536000\<close> and
  \<open>86400\<close>, and rounding a longer run of digits to a double (or to \<^verbatim>\<open>Infinity\<close>) cannot
  move it across either bound.
\<close>

definition digitValue :: "char \<Rightarrow> nat" where
  "digitValue c =
     (let n = (of_char c :: nat)
      in if 48 \<le> n \<and> n \<le> 57 then n - 48
         else if 97 \<le> n \<and> n \<le> 122 then n - 87
         else if 65 \<le> n \<and> n \<le> 90 then n - 55
         else 36)"

definition parseInt :: "string \<Rightarrow> int option" where
  "parseInt str =
     (let s = dropWhile isWhiteSpace str;
          sgn = (case s of c # r \<Rightarrow> if c = CHR ''-'' then -1 else 1 | [] \<Rightarrow> (1::int));
          s1 = (case s of c # r \<Rightarrow> if c = CHR ''-'' \<or> c = CHR ''+'' then r else s | [] \<Rightarrow> s);
          hex = (case s1 of a # b # r \<Rightarrow> a = CHR ''0'' \<and> (b = CHR ''x'' \<or> b = CHR ''X'') | _ \<Rightarrow> False);
          radix = (if hex then 16 else 10 :: nat);
          s2 = (if hex then drop 2 s1 else s1);
          ds = takeWhile (\<lambda>c. digitValue c < radix) s2
      in if ds = [] then None
         else Some (sgn * int (foldl (\<lambda>a c. a * radix + digitValue c) 0 ds)))"

subsection \<open>Numbers\<close>

text \<open>
  The binary exponent of a positive rational: \<open>ilog2 x = e\<close> exactly when
  \<open>2 powi e \<le> x < 2 powi (e + 1)\<close> (lemmas \<open>ilog2_bounds\<close> and \<open>ilog2_eq\<close>).
\<close>

definition ilog2 :: "rat \<Rightarrow> int" where
  "ilog2 x = (if 1 \<le> x then int (floorlog 2 (nat \<lfloor>x\<rfloor>)) - 1
              else - int (floorlog 2 (nat \<lceil>1 / x\<rceil> - 1)))"

text \<open>The nearest integer, a tie going to the even neighbour.\<close>

definition round_even :: "rat \<Rightarrow> int" where
  "round_even y =
     (let f = \<lfloor>y\<rfloor>; r = y - of_int f
      in if r < 1 / 2 then f else if 1 / 2 < r then f + 1 else if even f then f else f + 1)"

text \<open>
  Rounding to binary64, round-to-nearest-even. A double with binary exponent \<open>e\<close> is a
  multiple of \<open>2 powi (e - 52)\<close> (53 significant bits); below \<open>2 powi (- 1022)\<close> the
  subnormal doubles are the multiples of \<open>2 powi (- 1074)\<close>. Infinities, NaN and the sign
  of zero are not represented: the engine divides only by totals it has tested to be
  positive, its sums and products of table entries stay far below the overflow threshold
  \<open>2 powi 1024\<close> (a sum of bounded terms stops growing near \<open>2 powi 53\<close> times the term),
  and a negative zero could only come out of \<^verbatim>\<open>Math.round\<close>, where \<^verbatim>\<open>Math.max(0, ...)\<close>
  returns \<open>0\<close> for it.
\<close>

definition fl :: "rat \<Rightarrow> rat" where
  "fl x = (if x = 0 then 0
           else let e = max (ilog2 \<bar>x\<bar>) (- 1022) - 52
                in of_int (round_even (x / 2 powi e)) * 2 powi e)"

text \<open>The operators \<^verbatim>\<open>+\<close>, \<^verbatim>\<open>-\<close>, \<^verbatim>\<open>*\<close> and \<^verbatim>\<open>/\<close> on doubles.\<close>

definition js_add :: "rat \<Rightarrow> rat \<Rightarrow> rat" where
  "js_add a b = fl (a + b)"

definition js_sub :: "rat \<Rightarrow> rat \<Rightarrow> rat" where
  "js_sub a b = fl (a - b)"

definition js_mul :: "rat \<Rightarrow> rat \<Rightarrow> rat" where
  "js_mul a b = fl (a * b)"

definition js_div :: "rat \<Rightarrow> rat \<Rightarrow> rat" where
  "js_div a b = fl (a / b)"

text \<open>JavaScript's \<^verbatim>\<open>x || d\<close> on an optional number: \<^verbatim>\<open>undefined\<close> and \<open>0\<close> are falsy.\<close>

definition num_or :: "rat option \<Rightarrow> rat \<Rightarrow> rat" where
  "num_or x d = (case x of None \<Rightarrow> d | Some v \<Rightarrow> if v = 0 then d else v)"

text \<open>
  \<^verbatim>\<open>Math.round\<close>: the nearest integer, halves towards \<open>+\<infinity>\<close>. The result is computed
  exactly; it is a double whenever the argument is one.
\<close>

definition Math_round :: "rat \<Rightarrow> rat" where
  "Math_round x = of_int \<lfloor>x + 1 / 2\<rfloor>"

subsection \<open>JSON values\<close>

datatype json =
    JNull | JBool bool | JNum rat | JStr string | JArr "json list" | JObj "(string \<times> json) list"

text \<open>
  The runtime's part: \<^verbatim>\<open>JSON.parse\<close> (\<open>None\<close> when it throws a SyntaxError) and the
  outcome of \<^verbatim>\<open>v < c\<close> for a parsed string, array or object \<open>v\<close>, which JavaScript decides
  by converting \<open>v\<close> to a number. The conversion of an object can throw a TypeError (an
  own property \<^verbatim>\<open>toString\<close> or \<^verbatim>\<open>valueOf\<close> that is not callable).
\<close>

record js_runtime =
  JSON_parse :: "string \<Rightarrow> json option"
  coerced_lt :: "json \<Rightarrow> rat \<Rightarrow> exn + bool"

fun json_truthy :: "json \<Rightarrow> bool" where
  "json_truthy JNull = False"
| "json_truthy (JBool b) = b"
| "json_truthy (JNum n) = (n \<noteq> 0)"
| "json_truthy (JStr s) = (s \<noteq> [])"
| "json_truthy (JArr xs) = True"
| "json_truthy (JObj kvs) = True"

text \<open>\<^verbatim>\<open>!x\<close> for a property that may be \<^verbatim>\<open>undefined\<close> (\<open>None\<close>).\<close>

definition js_not :: "json option \<Rightarrow> bool" where
  "js_not x = (case x of None \<Rightarrow> True | Some v \<Rightarrow> \<not> json_truthy v)"

text \<open>
  Property access \<^verbatim>\<open>v.key\<close> for one of the keys the validators read (\<^verbatim>\<open>endpoints\<close>,
  \<^verbatim>\<open>max_age\<close>, \<^verbatim>\<open>report_to\<close>): a TypeError on \<^verbatim>\<open>null\<close>, the own property of an object,
  \<^verbatim>\<open>undefined\<close> on everything else.
\<close>

fun getProp :: "json \<Rightarrow> string \<Rightarrow> exn + json option" where
  "getProp JNull k = Inl TypeError"
| "getProp (JObj kvs) k = Inr (map_of kvs k)"
| "getProp v k = Inr None"

fun isArray :: "json option \<Rightarrow> bool" where
  "isArray (Some (JArr xs)) = True"
| "isArray x = False"

fun array_length :: "json option \<Rightarrow> nat" where
  "array_length (Some (JArr xs)) = length xs"
| "array_length x = 0"

text \<open>\<^verbatim>\<open>v < c\<close> for a JSON value \<open>v\<close> and a number \<open>c\<close>.\<close>

fun js_lt :: "js_runtime \<Rightarrow> json \<Rightarrow> rat \<Rightarrow> exn + bool" where
  "js_lt rt JNull c = Inr (0 < c)"
| "js_lt rt (JBool b) c = Inr ((if b then 1 else 0) < c)"
| "js_lt rt (JNum n) c = Inr (n < c)"
| "js_lt rt v c = coerced_lt rt v c"

text \<open>
  \<^verbatim>\<open>!x.max_age || x.max_age < 86400\<close>: the comparison is evaluated only when the property is
  truthy.
\<close>

definition short_max_age :: "js_runtime \<Rightarrow> json option \<Rightarrow> exn + bool" where
  "short_max_age rt max_age =
     (if js_not max_age then Inr True
      else case max_age of Some m \<Rightarrow> js_lt rt m 86400 | None \<Rightarrow> Inr True)"

section \<open>Configuration (config.js)\<close>

record scoring_thresholds =
  thrA :: rat
  thrB :: rat
  thrC :: rat
  thrD :: rat
  thrE :: rat
  thrF :: rat

record config_t =
  essentialHeaderWeights :: "(string \<times> rat) list"
  advancedHeaderWeights :: "(string \<times> rat) list"
  corsHeaderWeights :: "(string \<times> rat) list"
  misconfigurationPenalties :: "rating \<Rightarrow> rat option"
  dangerousHeaderPenalties :: "rating \<Rightarrow> rat option"
  cookieSecurityPenalties :: "rating \<Rightarrow> rat option"
  maxDangerousHeadersPenalty :: rat
  maxCookieSecurityPenalty :: rat
  scoringThresholds :: scoring_thresholds

definition config :: config_t where
  "config = \<lparr>
     essentialHeaderWeights =
       [(''strict-transport-security'', 15), (''content-security-policy'', 15),
        (''x-content-type-options'', 10), (''x-frame-options'', 10),
        (''referrer-policy'', 8), (''permissions-policy'', 7),
        (''x-xss-protection'', 5), (''cache-control'', 5)],
     advancedHeaderWeights =
       [(''expect-ct'', 5), (''cross-origin-embedder-policy'', 4),
        (''cross-origin-opener-policy'', 4), (''cross-origin-resource-policy'', 4),
        (''report-to'', 2), (''nel'', 2), (''clear-site-data'', 2), (''server-timing'', 2)],
     corsHeaderWeights =
       [(''access-control-allow-origin'', 5), (''access-control-allow-credentials'', 4),
        (''access-control-allow-methods'', 2), (''access-control-allow-headers'', 2),
        (''access-control-expose-headers'', 1), (''access-control-max-age'', 1)],
     misconfigurationPenalties =
       (\<lambda>r. Some (case r of High \<Rightarrow> fl (8 / 10) | Medium \<Rightarrow> fl (6 / 10)
                    | Low \<Rightarrow> fl (3 / 10) | Info \<Rightarrow> fl (1 / 10))),
     dangerousHeaderPenalties =
       (\<lambda>r. Some (case r of High \<Rightarrow> 4 | Medium \<Rightarrow> 2 | Low \<Rightarrow> 1 | Info \<Rightarrow> 1 / 2)),
     cookieSecurityPenalties =
       (\<lambda>r. Some (case r of High \<Rightarrow> 4 | Medium \<Rightarrow> 2 | Low \<Rightarrow> 1 | Info \<Rightarrow> 1 / 2)),
     maxDangerousHeadersPenalty = 10,
     maxCookieSecurityPenalty = 10,
     scoringThresholds = \<lparr>thrA = 90, thrB = 80, thrC = 70, thrD = 60, thrE = 50, thrF = 0\<rparr>
   \<rparr>"

text \<open>The fallback table written out twice in \<^verbatim>\<open>analyzeHeaders\<close>.\<close>

definition defaultPenalties :: "rating \<Rightarrow> rat option" where
  "defaultPenalties r = Some (case r of High \<Rightarrow> 4 | Medium \<Rightarrow> 2 | Low \<Rightarrow> 1 | Info \<Rightarrow> 1 / 2)"

section \<open>Registry entries, issues and findings\<close>

text \<open>
  A \<^verbatim>\<open>ConfigIssue\<close> is what a validator returns for a misconfigured value (\<open>None\<close> is
  \<^verbatim>\<open>null\<close>). Its \<^verbatim>\<open>criticalRating\<close> is optional: the engine falls back to the rating of
  the registry entry.
\<close>

record config_issue =
  issue :: string
  issue_criticalRating :: "rating option"

type_synonym validator = "hval \<Rightarrow> (string \<rightharpoonup> hval) \<Rightarrow> exn + config_issue option"

record header_info =
  info_name :: string
  info_description :: string
  info_criticalRating :: rating
  checkConfiguration :: "validator option"

datatype status = Missing | Present | Misconfigured | Dangerous

datatype category = Essential | Advanced | Cors | Other

text \<open>One entry of the nested issue list of a cookie finding.\<close>

record cookie_issue =
  issue_type :: string
  issue_description :: string
  cookie_issue_rating :: "rating option"

text \<open>
  A finding. JavaScript objects carry only the fields that were written; an absent field
  is \<open>None\<close>. The fields \<^verbatim>\<open>value\<close> and \<^verbatim>\<open>issue\<close> of the source are \<open>fvalue\<close> and
  \<open>finding_issue\<close> here; every finding the source builds has a \<^verbatim>\<open>criticalRating\<close>.
\<close>

record finding =
  header :: string
  status :: status
  fvalue :: "hval option"
  description :: "string option"
  finding_issue :: "string option"
  criticalRating :: rating
  category :: "category option"
  weight :: "rat option"
  pointsEarned :: "rat option"
  cookie :: "string option"
  issues :: "cookie_issue list option"

text \<open>What an analyzer returns.\<close>

record analysis =
  analysis_findings :: "finding list"
  scoreAdjustment :: rat

definition mk_issue :: "string \<Rightarrow> rating \<Rightarrow> exn + config_issue option" where
  "mk_issue txt r = Inr (Some \<lparr>issue = txt, issue_criticalRating = Some r\<rparr>)"

definition no_issue :: "exn + config_issue option" where
  "no_issue = Inr None"

section \<open>Essential headers (src/headers/essential.js)\<close>

text \<open>
  The first match of \<^verbatim>\<open>/max-age=(\d+)/\<close>, scanning from the left: the captured digits.
\<close>

fun match_max_age :: "string \<Rightarrow> string option" where
  "match_max_age [] = None"
| "match_max_age (c # cs) =
     (if startsWith ''max-age='' (c # cs) \<and> takeWhile isDigit (drop 8 (c # cs)) \<noteq> []
      then Some (takeWhile isDigit (drop 8 (c # cs)))
      else match_max_age cs)"

text \<open>The number the HSTS validator reads: the digits of that match, through \<^verbatim>\<open>parseInt\<close>.\<close>

definition hsts_max_age :: "string \<Rightarrow> int option" where
  "hsts_max_age s = (case match_max_age s of None \<Rightarrow> None | Some d \<Rightarrow> parseInt d)"

definition checkHstsConfiguration :: validator where
  "checkHstsConfiguration v hs =
     (if \<not> truthy v then mk_issue ''HSTS header missing'' High
      else if \<not> value_includes v ''max-age='' then
        mk_issue ''HSTS header missing max-age directive'' High
      else str_method v (\<lambda>s.
        let maxAgeMatch = match_max_age s in
        if (case maxAgeMatch of None \<Rightarrow> False
            | Some d \<Rightarrow> (case parseInt d of None \<Rightarrow> False | Some n \<Rightarrow> n < 31536000))
        then mk_issue ''HSTS max-age is less than 1 year'' Medium
        else if \<not> js_includes s ''includeSubDomains'' then
          mk_issue ''HSTS missing includeSubDomains directive'' Low
        else if \<not> js_includes s ''preload'' then
          mk_issue ''HSTS missing preload directive'' Info
        else no_issue))"

definition checkCspConfiguration :: validator where
  "checkCspConfiguration v hs =
     (if \<not> truthy v then mk_issue ''CSP header missing'' High
      else if value_includes v (squote @ ''unsafe-inline'' @ squote)
              \<or> value_includes v (squote @ ''unsafe-eval'' @ squote) then
        mk_issue ''CSP contains unsafe directives'' High
      else if value_includes v ''*'' \<and> \<not> value_includes v ''font-src''
              \<and> \<not> value_includes v ''img-src'' then
        mk_issue ''CSP contains wildcards'' Medium
      else
        let recommendedDirectives = [''default-src'', ''script-src'', ''style-src''];
            missingDirectives = filter (\<lambda>directive. \<not> value_includes v directive) recommendedDirectives
        in if length missingDirectives > 0 then
             mk_issue (''CSP missing recommended directives: '' @ join '', '' missingDirectives) Medium
           else no_issue)"

definition checkXFrameOptionsConfiguration :: validator where
  "checkXFrameOptionsConfiguration v hs =
     str_method v (\<lambda>s.
       if toUpperCase s \<noteq> ''DENY'' \<and> toUpperCase s \<noteq> ''SAMEORIGIN'' then
         mk_issue ''X-Frame-Options has invalid value'' Medium
       else no_issue)"

definition checkXssProtectionConfiguration :: validator where
  "checkXssProtectionConfiguration v hs =
     (if \<not> value_includes v ''1'' then mk_issue ''XSS Protection is disabled'' Medium
      else if \<not> value_includes v ''mode=block'' then
        mk_issue ''XSS Protection is enabled but not in blocking mode'' Low
      else no_issue)"

definition checkReferrerPolicyConfiguration :: validator where
  "checkReferrerPolicyConfiguration v hs =
     (let weakReferrerPolicies = [''unsafe-url'', ''no-referrer-when-downgrade'']
      in case find (\<lambda>weakPolicy. value_includes v weakPolicy) weakReferrerPolicies of
           Some weakPolicy \<Rightarrow>
             mk_issue (''Referrer-Policy contains weak policy: '' @ weakPolicy) Low
         | None \<Rightarrow> no_issue)"

definition essentialHeaders :: "(string \<times> header_info) list" where
  "essentialHeaders =
     [(''strict-transport-security'',
        \<lparr>info_name = ''Strict-Transport-Security (HSTS)'',
         info_description = ''Forces browsers to use HTTPS for the domain'',
         info_criticalRating = High, checkConfiguration = Some checkHstsConfiguration\<rparr>),
      (''content-security-policy'',
        \<lparr>info_name = ''Content-Security-Policy (CSP)'',
         info_description = ''Controls resources the browser is allowed to load'',
         info_criticalRating = High, checkConfiguration = Some checkCspConfiguration\<rparr>),
      (''x-content-type-options'',
        \<lparr>info_name = ''X-Content-Type-Options'',
         info_description = ''Prevents MIME-sniffing attacks'',
         info_criticalRating = Medium, checkConfiguration = None\<rparr>),
      (''x-frame-options'',
        \<lparr>info_name = ''X-Frame-Options'',
         info_description = ''Prevents clickjacking attacks'',
         info_criticalRating = Medium, checkConfiguration = Some checkXFrameOptionsConfiguration\<rparr>),
      (''x-xss-protection'',
        \<lparr>info_name = ''X-XSS-Protection'',
         info_description = ''Enables XSS filtering in browsers'',
         info_criticalRating = Low, checkConfiguration = Some checkXssProtectionConfiguration\<rparr>),
      (''referrer-policy'',
        \<lparr>info_name = ''Referrer-Policy'',
         info_description = ''Controls how much referrer information should be included with requests'',
         info_criticalRating = Low, checkConfiguration = Some checkReferrerPolicyConfiguration\<rparr>),
      (''permissions-policy'',
        \<lparr>info_name = ''Permissions-Policy'',
         info_description = ''Controls which browser features can be used on the page'',
         info_criticalRating = Low, checkConfiguration = None\<rparr>),
      (''cache-control'',
        \<lparr>info_name = ''Cache-Control'',
         info_description = ''Controls how pages are cached by browsers and proxies'',
         info_criticalRating = Low, checkConfiguration = None\<rparr>)]"

section \<open>Advanced headers (src/headers/advanced.js)\<close>

text \<open>A \<^verbatim>\<open>try { ... } catch (error) { return r }\<close> block: every exception becomes \<open>r\<close>.\<close>

definition try_catch :: "exn + 'a \<Rightarrow> exn + 'a \<Rightarrow> exn + 'a" where
  "try_catch body handler = (case body of Inl e \<Rightarrow> handler | Inr r \<Rightarrow> Inr r)"

definition checkExpectCtConfiguration :: validator where
  "checkExpectCtConfiguration v hs =
     (if \<not> value_includes v ''max-age='' then
        mk_issue ''Expect-CT header missing max-age directive'' Medium
      else if \<not> value_includes v ''enforce'' then
        mk_issue ''Expect-CT header missing enforce directive'' Low
      else no_issue)"

text \<open>The body of the \<^verbatim>\<open>try\<close> block of \<^verbatim>\<open>checkReportToConfiguration\<close>.\<close>

definition reportTo_body :: "js_runtime \<Rightarrow> hval \<Rightarrow> exn + config_issue option" where
  "reportTo_body rt v =
     (case JSON_parse rt (toString v) of
        None \<Rightarrow> Inl SyntaxError
      | Some reportConfig \<Rightarrow>
          (case getProp reportConfig ''endpoints'' of
             Inl e \<Rightarrow> Inl e
           | Inr endpoints \<Rightarrow>
               if js_not endpoints \<or> \<not> isArray endpoints \<or> array_length endpoints = 0 then
                 mk_issue ''Report-To header has invalid or missing endpoints'' Low
               else
                 (case getProp reportConfig ''max_age'' of
                    Inl e \<Rightarrow> Inl e
                  | Inr max_age \<Rightarrow>
                      (case short_max_age rt max_age of
                         Inl e \<Rightarrow> Inl e
                       | Inr short \<Rightarrow>
                           if short then
                             mk_issue ''Report-To header has short max_age or missing max_age''
                               Info
                           else no_issue))))"

definition checkReportToConfiguration :: "js_runtime \<Rightarrow> validator" where
  "checkReportToConfiguration rt v hs =
     try_catch (reportTo_body rt v) (mk_issue ''Report-To header contains invalid JSON'' Low)"

definition nel_body :: "js_runtime \<Rightarrow> hval \<Rightarrow> exn + config_issue option" where
  "nel_body rt v =
     (case JSON_parse rt (toString v) of
        None \<Rightarrow> Inl SyntaxError
      | Some nelConfig \<Rightarrow>
          (case getProp nelConfig ''report_to'' of
             Inl e \<Rightarrow> Inl e
           | Inr report_to \<Rightarrow>
               if js_not report_to then
                 mk_issue ''NEL header missing report_to field'' Low
               else
                 (case getProp nelConfig ''max_age'' of
                    Inl e \<Rightarrow> Inl e
                  | Inr max_age \<Rightarrow>
                      (case short_max_age rt max_age of
                         Inl e \<Rightarrow> Inl e
                       | Inr short \<Rightarrow>
                           if short then
                             mk_issue ''NEL header has short max_age or missing max_age'' Info
                           else no_issue))))"

definition checkNelConfiguration :: "js_runtime \<Rightarrow> validator" where
  "checkNelConfiguration rt v hs =
     try_catch (nel_body rt v) (mk_issue ''NEL header contains invalid JSON'' Low)"

definition clearSiteData_body :: "js_runtime \<Rightarrow> hval \<Rightarrow> exn + config_issue option" where
  "clearSiteData_body rt v =
     (case JSON_parse rt (toString v) of
        None \<Rightarrow> Inl SyntaxError
      | Some parsed \<Rightarrow> no_issue)"

definition checkClearSiteDataConfiguration :: "js_runtime \<Rightarrow> validator" where
  "checkClearSiteDataConfiguration rt v hs =
     try_catch (clearSiteData_body rt v)
       (mk_issue ''Clear-Site-Data header contains invalid JSON'' Low)"

definition checkCoepConfiguration :: validator where
  "checkCoepConfiguration v hs =
     (if v \<noteq> Str ''require-corp'' \<and> v \<noteq> Str ''credentialless'' then
        mk_issue ''Cross-Origin-Embedder-Policy has invalid value'' Low
      else no_issue)"

definition checkCoopConfiguration :: validator where
  "checkCoopConfiguration v hs =
     (if v \<noteq> Str ''same-origin'' \<and> v \<noteq> Str ''same-origin-allow-popups''
         \<and> v \<noteq> Str ''unsafe-none'' then
        mk_issue ''Cross-Origin-Opener-Policy has invalid value'' Low
      else no_issue)"

definition checkCorpConfiguration :: validator where
  "checkCorpConfiguration v hs =
     (if v \<noteq> Str ''same-site'' \<and> v \<noteq> Str ''same-origin'' \<and> v \<noteq> Str ''cross-origin'' then
        mk_issue ''Cross-Origin-Resource-Policy has invalid value'' Low
      else no_issue)"

text \<open>
  \<^verbatim>\<open>checkPermissionsPolicyConfiguration\<close> is defined in the same file but attached to no
  header, so it is never called and is not embedded.
\<close>

definition advancedHeaders :: "js_runtime \<Rightarrow> (string \<times> header_info) list" where
  "advancedHeaders rt =
     [(''expect-ct'',
        \<lparr>info_name = ''Expect-CT'',
         info_description = ''Allows sites to opt-in to Certificate Transparency reporting'',
         info_criticalRating = Medium, checkConfiguration = Some checkExpectCtConfiguration\<rparr>),
      (''report-to'',
        \<lparr>info_name = ''Report-To'',
         info_description = ''Specifies a server for browsers to send security reports to'',
         info_criticalRating = Low, checkConfiguration = Some (checkReportToConfiguration rt)\<rparr>),
      (''nel'',
        \<lparr>info_name = ''NEL (Network Error Logging)'',
         info_description = ''Enables reporting of network errors to help identify connectivity issues'',
         info_criticalRating = Low, checkConfiguration = Some (checkNelConfiguration rt)\<rparr>),
      (''clear-site-data'',
        \<lparr>info_name = ''Clear-Site-Data'',
         info_description = ''Clears browsing data (cookies, storage, cache) associated with the site'',
         info_criticalRating = Info, checkConfiguration = Some (checkClearSiteDataConfiguration rt)\<rparr>),
      (''cross-origin-embedder-policy'',
        \<lparr>info_name = ''Cross-Origin-Embedder-Policy'',
         info_description = ''Controls which cross-origin resources can be loaded'',
         info_criticalRating = Low, checkConfiguration = Some checkCoepConfiguration\<rparr>),
      (''cross-origin-opener-policy'',
        \<lparr>info_name = ''Cross-Origin-Opener-Policy'',
         info_description = ''Controls sharing browsing context with cross-origin documents'',
         info_criticalRating = Low, checkConfiguration = Some checkCoopConfiguration\<rparr>),
      (''cross-origin-resource-policy'',
        \<lparr>info_name = ''Cross-Origin-Resource-Policy'',
         info_description = ''Controls which origins can load the resource'',
         info_criticalRating = Low, checkConfiguration = Some checkCorpConfiguration\<rparr>),
      (''server-timing'',
        \<lparr>info_name = ''Server-Timing'',
         info_description = ''Provides performance metrics to help diagnose site performance'',
         info_criticalRating = Info, checkConfiguration = None\<rparr>)]"

section \<open>CORS headers (src/headers/cors.js)\<close>

definition checkAccessControlAllowOriginConfiguration :: validator where
  "checkAccessControlAllowOriginConfiguration v hs =
     (if v = Str ''*'' then mk_issue ''Access-Control-Allow-Origin uses wildcard (*)'' Medium
      else no_issue)"

definition checkAccessControlAllowCredentialsConfiguration :: validator where
  "checkAccessControlAllowCredentialsConfiguration v hs =
     str_method v (\<lambda>s.
       if toLowerCase s = ''true'' then
         (let allowOrigin = hs ''access-control-allow-origin''
          in if allowOrigin = Some (Str ''*'') then
               mk_issue ''Access-Control-Allow-Credentials is true while Allow-Origin is wildcard'' High
             else no_issue)
       else no_issue)"

definition checkAccessControlAllowMethodsConfiguration :: validator where
  "checkAccessControlAllowMethodsConfiguration v hs =
     str_method v (\<lambda>s.
       let sensitiveHttpMethods = [''PUT'', ''DELETE'', ''PATCH''];
           allowedMethods = map (\<lambda>method. toUpperCase (trim method)) (split CHR '','' s);
           allowedSensitiveMethods =
             filter (\<lambda>method. method \<in> set allowedMethods) sensitiveHttpMethods
       in if length allowedSensitiveMethods > 0 then
            mk_issue (''CORS allows potentially dangerous methods: ''
                        @ join '', '' allowedSensitiveMethods) Low
          else no_issue)"

definition checkAccessControlAllowHeadersConfiguration :: validator where
  "checkAccessControlAllowHeadersConfiguration v hs =
     (if v = Str ''*'' then mk_issue ''Access-Control-Allow-Headers uses wildcard (*)'' Low
      else no_issue)"

definition checkAccessControlExposeHeadersConfiguration :: validator where
  "checkAccessControlExposeHeadersConfiguration v hs =
     str_method v (\<lambda>s.
       let potentiallySensitiveHeaders =
             [''Authorization'', ''X-API-Key'', ''X-Auth-Token'', ''Set-Cookie''];
           exposedHeaders = map (\<lambda>h. toLowerCase (trim h)) (split CHR '','' s);
           exposedSensitiveHeaders =
             filter (\<lambda>h. toLowerCase h \<in> set exposedHeaders) potentiallySensitiveHeaders
       in if length exposedSensitiveHeaders > 0 then
            mk_issue (''Exposing potentially sensitive headers: ''
                        @ join '', '' exposedSensitiveHeaders) Medium
          else no_issue)"

definition checkAccessControlMaxAgeConfiguration :: validator where
  "checkAccessControlMaxAgeConfiguration v hs =
     (let maxAge = parseInt (toString v)
      in if (case maxAge of None \<Rightarrow> False | Some n \<Rightarrow> n > 86400) then
           mk_issue ''Access-Control-Max-Age is excessively long'' Info
         else no_issue)"

definition corsHeaders :: "(string \<times> header_info) list" where
  "corsHeaders =
     [(''access-control-allow-origin'',
        \<lparr>info_name = ''Access-Control-Allow-Origin'',
         info_description = ''Specifies which origins can access the resource'',
         info_criticalRating = Medium,
         checkConfiguration = Some checkAccessControlAllowOriginConfiguration\<rparr>),
      (''access-control-allow-credentials'',
        \<lparr>info_name = ''Access-Control-Allow-Credentials'',
         info_description = ''Indicates whether the response can be shared with requesting code from the given origin when credentials are provided'',
         info_criticalRating = Medium,
         checkConfiguration = Some checkAccessControlAllowCredentialsConfiguration\<rparr>),
      (''access-control-allow-methods'',
        \<lparr>info_name = ''Access-Control-Allow-Methods'',
         info_description = ''Specifies which HTTP methods are allowed when accessing the resource'',
         info_criticalRating = Low,
         checkConfiguration = Some checkAccessControlAllowMethodsConfiguration\<rparr>),
      (''access-control-allow-headers'',
        \<lparr>info_name = ''Access-Control-Allow-Headers'',
         info_description = ''Specifies which HTTP headers can be used when making the actual request'',
         info_criticalRating = Low,
         checkConfiguration = Some checkAccessControlAllowHeadersConfiguration\<rparr>),
      (''access-control-expose-headers'',
        \<lparr>info_name = ''Access-Control-Expose-Headers'',
         info_description = ''Indicates which headers can be exposed as part of the response'',
         info_criticalRating = Low,
         checkConfiguration = Some checkAccessControlExposeHeadersConfiguration\<rparr>),
      (''access-control-max-age'',
        \<lparr>info_name = ''Access-Control-Max-Age'',
         info_description = ''Indicates how long the results of a preflight request can be cached'',
         info_criticalRating = Info,
         checkConfiguration = Some checkAccessControlMaxAgeConfiguration\<rparr>)]"

section \<open>Cookies (src/headers/cookies.js)\<close>

text \<open>\<^verbatim>\<open>Array.isArray(value) ? value : [value]\<close>\<close>

fun cookies_of :: "hval \<Rightarrow> string list" where
  "cookies_of (Arr xs) = xs"
| "cookies_of (Str s) = [s]"

text \<open>\<^verbatim>\<open>cookie.split('=')[0].trim()\<close>\<close>

definition cookieName_of :: "string \<Rightarrow> string" where
  "cookieName_of ck = trim (hd (split CHR ''='' ck))"

definition sensitiveKeywords :: "string list" where
  "sensitiveKeywords =
     [''auth'', ''session'', ''token'', ''key'', ''secret'', ''password'', ''credential'']"

definition push_if :: "bool \<Rightarrow> 'a \<Rightarrow> 'a list \<Rightarrow> 'a list" where
  "push_if b x xs = (if b then xs @ [x] else xs)"

definition cookie_quoted :: "string \<Rightarrow> string" where
  "cookie_quoted cookieName = ''Cookie '' @ dquote @ cookieName @ dquote"

text \<open>One pass of the loop body of \<^verbatim>\<open>checkSetCookieConfiguration\<close> over a cookie.\<close>

definition setCookie_step :: "config_issue list \<Rightarrow> string \<Rightarrow> config_issue list" where
  "setCookie_step issues0 ck =
     (let cookieName = cookieName_of ck;
          i1 = push_if (\<not> js_includes ck ''Secure'')
                 \<lparr>issue = cookie_quoted cookieName @ '' missing Secure attribute'',
                  issue_criticalRating = Some High\<rparr> issues0;
          i2 = push_if (\<not> js_includes ck ''HttpOnly'')
                 \<lparr>issue = cookie_quoted cookieName @ '' missing HttpOnly attribute'',
                  issue_criticalRating = Some High\<rparr> i1;
          i3 = (if \<not> js_includes ck ''SameSite'' then
                  i2 @ [\<lparr>issue = cookie_quoted cookieName @ '' missing SameSite attribute'',
                         issue_criticalRating = Some Medium\<rparr>]
                else if js_includes ck ''SameSite=None'' then
                  push_if (\<not> js_includes ck ''Secure'')
                    \<lparr>issue = cookie_quoted cookieName
                               @ '' has SameSite=None without Secure attribute'',
                     issue_criticalRating = Some High\<rparr> i2
                else i2);
          i4 = push_if (\<not> js_includes ck ''Max-Age'' \<and> \<not> js_includes ck ''Expires'')
                 \<lparr>issue = cookie_quoted cookieName
                            @ '' missing expiration (Max-Age or Expires)'',
                  issue_criticalRating = Some Low\<rparr> i3;
          i5 = (if \<not> js_includes ck ''Path='' then
                  i4 @ [\<lparr>issue = cookie_quoted cookieName @ '' missing Path attribute'',
                         issue_criticalRating = Some Low\<rparr>]
                else if js_includes ck ''Path=/'' then
                  i4 @ [\<lparr>issue = cookie_quoted cookieName @ '' uses broad Path=/ scope'',
                         issue_criticalRating = Some Info\<rparr>]
                else i4)
      in case find (\<lambda>keyword. js_includes (toLowerCase cookieName) keyword) sensitiveKeywords of
           None \<Rightarrow> i5
         | Some keyword \<Rightarrow>
             (let missingAttributes =
                    push_if (\<not> js_includes ck ''SameSite'') ''SameSite''
                      (push_if (\<not> js_includes ck ''HttpOnly'') ''HttpOnly''
                         (push_if (\<not> js_includes ck ''Secure'') ''Secure'' []))
              in push_if (length missingAttributes > 0)
                   \<lparr>issue = ''Potentially sensitive cookie '' @ dquote @ cookieName @ dquote
                              @ '' missing critical attributes: ''
                              @ join '', '' missingAttributes,
                    issue_criticalRating = Some High\<rparr> i5))"

text \<open>The validator returns the first issue only.\<close>

definition checkSetCookieConfiguration :: validator where
  "checkSetCookieConfiguration v hs =
     (let cookies = cookies_of v;
          issues1 = foldl setCookie_step [] cookies
      in case issues1 of [] \<Rightarrow> no_issue | i # rest \<Rightarrow> Inr (Some i))"

text \<open>
  The leftmost match of \<^verbatim>\<open>/SameSite=(Strict|Lax|None)/i\<close>: the captured group. Letters are
  compared without regard to case.
\<close>

definition ci_startsWith :: "string \<Rightarrow> string \<Rightarrow> bool" where
  "ci_startsWith p s = startsWith p (toLowerCase s)"

fun sameSite_exec :: "string \<Rightarrow> string option" where
  "sameSite_exec [] = None"
| "sameSite_exec (c # cs) =
     (let r = drop 9 (c # cs)
      in if ci_startsWith ''samesite='' (c # cs) then
           (if ci_startsWith ''strict'' r then Some (take 6 r)
            else if ci_startsWith ''lax'' r then Some (take 3 r)
            else if ci_startsWith ''none'' r then Some (take 4 r)
            else sameSite_exec cs)
         else sameSite_exec cs)"

record secure_attributes =
  secure :: bool
  httpOnly :: bool
  sameSite :: bool
  sameSiteValue :: string

definition secureAttributes_of :: "string \<Rightarrow> secure_attributes" where
  "secureAttributes_of ck =
     \<lparr>secure = js_includes ck ''Secure'',
      httpOnly = js_includes ck ''HttpOnly'',
      sameSite = (sameSite_exec ck \<noteq> None),
      sameSiteValue =
        (case sameSite_exec ck of
           None \<Rightarrow> ''none''
         | Some g \<Rightarrow> if toLowerCase g = [] then ''none'' else toLowerCase g)\<rparr>"

text \<open>
  The nested issue list of one cookie, with the amount the loop body subtracts from
  \<^verbatim>\<open>scoreAdjustment\<close> for each entry.
\<close>

definition cookieIssues_of :: "string \<Rightarrow> (cookie_issue \<times> rat) list" where
  "cookieIssues_of ck =
     (let sa = secureAttributes_of ck;
          c1 = push_if (\<not> secure sa)
                 (\<lparr>issue_type = ''missing_secure'',
                   issue_description = ''Missing Secure attribute'',
                   cookie_issue_rating = Some High\<rparr>, 2) [];
          c2 = push_if (\<not> httpOnly sa)
                 (\<lparr>issue_type = ''missing_httponly'',
                   issue_description = ''Missing HttpOnly attribute'',
                   cookie_issue_rating = Some High\<rparr>, 2) c1
      in if \<not> sameSite sa then
           c2 @ [(\<lparr>issue_type = ''missing_samesite'',
                    issue_description = ''Missing SameSite attribute'',
                    cookie_issue_rating = Some Medium\<rparr>, 1)]
         else push_if (sameSiteValue sa = ''none'' \<and> \<not> secure sa)
                (\<lparr>issue_type = ''samesite_none_without_secure'',
                  issue_description = ''Using SameSite=None without Secure attribute'',
                  cookie_issue_rating = Some High\<rparr>, 2) c2)"

text \<open>The finding pushed for a cookie that has issues.\<close>

definition cookie_finding :: "string \<Rightarrow> finding" where
  "cookie_finding ck =
     \<lparr>header = ''Cookie Security'', status = Misconfigured, fvalue = Some (Str ck),
      description = None, finding_issue = None, criticalRating = High,
      category = None, weight = None, pointsEarned = None,
      cookie = Some (cookieName_of ck), issues = Some (map fst (cookieIssues_of ck))\<rparr>"

text \<open>One pass of the loop of \<^verbatim>\<open>cookieAnalyzer\<close>.\<close>

definition cookieAnalyzer_step :: "analysis \<Rightarrow> string \<Rightarrow> analysis" where
  "cookieAnalyzer_step acc ck =
     (let cookieIssues = cookieIssues_of ck;
          adj = foldl js_sub (scoreAdjustment acc) (map snd cookieIssues)
      in if length cookieIssues > 0 then
           \<lparr>analysis_findings = analysis_findings acc @ [cookie_finding ck],
            scoreAdjustment = adj\<rparr>
         else \<lparr>analysis_findings = analysis_findings acc, scoreAdjustment = adj\<rparr>)"

definition cookieAnalyzer :: "hval \<Rightarrow> analysis" where
  "cookieAnalyzer setCookieValues =
     foldl cookieAnalyzer_step \<lparr>analysis_findings = [], scoreAdjustment = 0\<rparr>
       (cookies_of setCookieValues)"

definition setCookieHeader :: "(string \<times> header_info) list" where
  "setCookieHeader =
     [(''set-cookie'',
        \<lparr>info_name = ''Set-Cookie'',
         info_description = ''Sets a cookie with security attributes'',
         info_criticalRating = High, checkConfiguration = Some checkSetCookieConfiguration\<rparr>)]"

section \<open>Information disclosure (src/headers/disclosure.js)\<close>

text \<open>The table \<^verbatim>\<open>dangerousHeaders\<close>: key, display name, description, rating.\<close>

definition dangerousHeadersTable :: "(string \<times> string \<times> string \<times> rating) list" where
  "dangerousHeadersTable =
     [(''server'', ''Server'', ''Reveals server software version'', Low),
      (''x-powered-by'', ''X-Powered-By'', ''Reveals technology stack information'', Low),
      (''x-aspnet-version'', ''X-AspNet-Version'', ''Reveals ASP.NET version'', Medium),
      (''x-aspnetmvc-version'', ''X-AspNetMvc-Version'', ''Reveals ASP.NET MVC version'', Medium),
      (''x-generator'', ''X-Generator'', ''Reveals the platform or CMS used'', Low),
      (''x-drupal-cache'', ''X-Drupal-Cache'', ''Reveals Drupal as the CMS'', Low),
      (''x-drupal-dynamic-cache'', ''X-Drupal-Dynamic-Cache'', ''Reveals Drupal as the CMS'', Low),
      (''x-wordpress-cache'', ''X-WordPress-Cache'', ''Reveals WordPress as the CMS'', Low),
      (''x-wp-nonce'', ''X-WP-Nonce'', ''Reveals WordPress as the CMS'', Low),
      (''x-pingback'', ''X-Pingback'',
         ''Often indicates WordPress and provides an XML-RPC endpoint'', Low),
      (''laravel_session'', ''laravel_session'', ''Reveals Laravel as the framework'', Low),
      (''phpbb-data'', ''phpbb-data'', ''Reveals phpBB as the forum software'', Low),
      (''joomla_user_state'', ''joomla_user_state'', ''Reveals Joomla as the CMS'', Low),
      (''x-varnish'', ''X-Varnish'', ''Reveals Varnish Cache is in use'', Info),
      (''via'', ''Via'', ''May reveal proxy information'', Info),
      (''x-cache'', ''X-Cache'', ''Reveals caching infrastructure details'', Info),
      (''x-runtime'', ''X-Runtime'', ''Reveals application runtime information'', Low),
      (''x-debug-token'', ''X-Debug-Token'', ''Debug information from Symfony framework'', Medium),
      (''x-debug-token-link'', ''X-Debug-Token-Link'',
         ''Debug information from Symfony framework'', Medium)]"

text \<open>\<^verbatim>\<open>headers[key]\<close> is truthy.\<close>

definition present :: "(string \<rightharpoonup> hval) \<Rightarrow> string \<Rightarrow> bool" where
  "present hs k = (case hs k of None \<Rightarrow> False | Some v \<Rightarrow> truthy v)"

definition dangerous_finding :: "string \<Rightarrow> hval option \<Rightarrow> string \<Rightarrow> rating \<Rightarrow> finding" where
  "dangerous_finding nm v descr r =
     \<lparr>header = nm, status = Dangerous, fvalue = v, description = Some descr,
      finding_issue = None, criticalRating = r, category = None, weight = None,
      pointsEarned = None, cookie = None, issues = None\<rparr>"

text \<open>The \<^verbatim>\<open>switch\<close> on the rating: the amount subtracted from \<^verbatim>\<open>scoreAdjustment\<close>.\<close>

fun disclosure_points :: "rating \<Rightarrow> rat" where
  "disclosure_points High = 3"
| "disclosure_points Medium = 2"
| "disclosure_points Low = 1"
| "disclosure_points Info = 0"

definition dangerous_step ::
  "(string \<rightharpoonup> hval) \<Rightarrow> analysis \<Rightarrow> string \<times> string \<times> string \<times> rating \<Rightarrow> analysis" where
  "dangerous_step hs acc e =
     (case e of (hdr, nm, descr, r) \<Rightarrow>
        if present hs hdr then
          \<lparr>analysis_findings = analysis_findings acc @ [dangerous_finding nm (hs hdr) descr r],
           scoreAdjustment = js_sub (scoreAdjustment acc) (disclosure_points r)\<rparr>
        else acc)"

text \<open>
  \<^verbatim>\<open>/[0-9]+\.[0-9]+(\.[0-9]+)?/.test(str)\<close>: somewhere a run of digits is followed by a dot
  and a digit.
\<close>

fun versionHeaderRegex_test :: "string \<Rightarrow> bool" where
  "versionHeaderRegex_test [] = False"
| "versionHeaderRegex_test (c # cs) =
     ((isDigit c \<and>
        (case dropWhile isDigit (c # cs) of
           d # e # rest \<Rightarrow> d = CHR ''.'' \<and> isDigit e
         | _ \<Rightarrow> False))
      \<or> versionHeaderRegex_test cs)"

definition version_step ::
  "(string \<rightharpoonup> hval) \<Rightarrow> string \<Rightarrow> string \<Rightarrow> string \<Rightarrow> analysis \<Rightarrow> analysis" where
  "version_step hs hdr nm descr acc =
     (if present hs hdr \<and> (case hs hdr of Some v \<Rightarrow> versionHeaderRegex_test (toString v)
                                        | None \<Rightarrow> False) then
        \<lparr>analysis_findings = analysis_findings acc @ [dangerous_finding nm (hs hdr) descr Medium],
         scoreAdjustment = js_sub (scoreAdjustment acc) 2\<rparr>
      else acc)"

definition checkDangerousHeaders :: "(string \<rightharpoonup> hval) \<Rightarrow> analysis" where
  "checkDangerousHeaders hs =
     (let a1 = foldl (dangerous_step hs) \<lparr>analysis_findings = [], scoreAdjustment = 0\<rparr>
                 dangerousHeadersTable;
          a2 = version_step hs ''server'' ''Server''
                 ''Server header contains version information'' a1
      in version_step hs ''x-powered-by'' ''X-Powered-By''
           ''X-Powered-By header contains version information'' a2)"

section \<open>The checker (src/core/api.js, src/core/scanner.js)\<close>

text \<open>
  \<^verbatim>\<open>this.analyzers\<close>: each of the two analyzers may be absent. The field \<open>cookieAnalyzer_opt\<close>
  is the property \<^verbatim>\<open>cookieAnalyzer\<close>.
\<close>

record analyzers_t =
  dangerousHeaders :: "((string \<rightharpoonup> hval) \<Rightarrow> analysis) option"
  cookieAnalyzer_opt :: "(hval \<Rightarrow> analysis) option"

text \<open>
  \<^verbatim>\<open>createDefaultChecker\<close>: the registry is the essential, advanced, CORS and cookie
  entries in this order; the two analyzers are kept apart.
\<close>

definition allHeaders :: "js_runtime \<Rightarrow> (string \<times> header_info) list" where
  "allHeaders rt = essentialHeaders @ advancedHeaders rt @ corsHeaders @ setCookieHeader"

definition defaultAnalyzers :: analyzers_t where
  "defaultAnalyzers =
     \<lparr>dangerousHeaders = Some checkDangerousHeaders, cookieAnalyzer_opt = Some cookieAnalyzer\<rparr>"

text \<open>
  The first loop of \<^verbatim>\<open>analyzeHeaders\<close>: a later entry with the same lower-case name
  replaces an earlier one. An assignment to the key \<^verbatim>\<open>__proto__\<close> creates no property: it
  runs the setter inherited from \<^verbatim>\<open>Object.prototype\<close>, which ignores a string and, given an
  array, makes it the prototype of the map, where no name the engine looks up is found.
\<close>

definition normalize_step :: "(string \<rightharpoonup> hval) \<Rightarrow> string \<times> hval \<Rightarrow> (string \<rightharpoonup> hval)" where
  "normalize_step m kv =
     (if toLowerCase (fst kv) = ''__proto__'' then m else m(toLowerCase (fst kv) \<mapsto> snd kv))"

definition normalize :: "(string \<times> hval) list \<Rightarrow> (string \<rightharpoonup> hval)" where
  "normalize hs = foldl normalize_step Map.empty hs"

text \<open>
  \<^verbatim>\<open>Object.values(table).reduce((a, b) => a + b, 0) || d\<close>
\<close>

definition totalPoints :: "(string \<times> rat) list \<Rightarrow> rat \<Rightarrow> rat" where
  "totalPoints table d = num_or (Some (foldl js_add 0 (map snd table))) d"

text \<open>Weight and category of a registry key, from the three weight tables.\<close>

definition headerWeight_of :: "string \<Rightarrow> rat \<times> category" where
  "headerWeight_of hdr =
     (case map_of (essentialHeaderWeights config) hdr of
        Some w \<Rightarrow> (w, Essential)
      | None \<Rightarrow>
          (case map_of (advancedHeaderWeights config) hdr of
             Some w \<Rightarrow> (w, Advanced)
           | None \<Rightarrow>
               (case map_of (corsHeaderWeights config) hdr of
                  Some w \<Rightarrow> (w, Cors)
                | None \<Rightarrow> (5, Other))))"

record loop_state =
  ls_findings :: "finding list"
  earnedEssentialPoints :: rat
  earnedAdvancedPoints :: rat
  earnedCorsPoints :: rat

definition add_points :: "category \<Rightarrow> rat \<Rightarrow> loop_state \<Rightarrow> loop_state" where
  "add_points cat pts st =
     (if cat = Essential then
        st\<lparr>earnedEssentialPoints := js_add (earnedEssentialPoints st) pts\<rparr>
      else if cat = Advanced then
        st\<lparr>earnedAdvancedPoints := js_add (earnedAdvancedPoints st) pts\<rparr>
      else if cat = Cors then st\<lparr>earnedCorsPoints := js_add (earnedCorsPoints st) pts\<rparr>
      else st)"

definition push_finding :: "finding \<Rightarrow> loop_state \<Rightarrow> loop_state" where
  "push_finding f st = st\<lparr>ls_findings := ls_findings st @ [f]\<rparr>"

text \<open>One pass of the loop over \<^verbatim>\<open>this.securityHeaders\<close>.\<close>

definition checkHeader ::
  "(string \<rightharpoonup> hval) \<Rightarrow> loop_state \<Rightarrow> string \<times> header_info \<Rightarrow> exn + loop_state" where
  "checkHeader normalizedHeaders st e =
     (case e of (hdr, info) \<Rightarrow>
        if hdr = ''cookieAnalyzer'' \<or> hdr = ''dangerousHeaders'' then Inr st
        else
          (case headerWeight_of hdr of (headerWeight, cat) \<Rightarrow>
             if \<not> present normalizedHeaders hdr then
               Inr (push_finding
                  \<lparr>header = info_name info, status = Missing, fvalue = None,
                   description = Some (info_description info), finding_issue = None,
                   criticalRating = info_criticalRating info, category = Some cat,
                   weight = Some headerWeight, pointsEarned = None, cookie = None,
                   issues = None\<rparr> st)
             else
               (case (case checkConfiguration info of
                        None \<Rightarrow> Inr None
                      | Some check \<Rightarrow>
                          (case normalizedHeaders hdr of
                             Some v \<Rightarrow> check v normalizedHeaders
                           | None \<Rightarrow> Inr None)) of
                  Inl err \<Rightarrow> Inl err
                | Inr (Some configIssue) \<Rightarrow>
                    (let r = (case issue_criticalRating configIssue of
                                Some r' \<Rightarrow> r' | None \<Rightarrow> info_criticalRating info);
                         penaltyMultiplier = num_or (misconfigurationPenalties config r) (1 / 2);
                         pointsLost = js_mul headerWeight penaltyMultiplier;
                         earned = js_sub headerWeight pointsLost
                     in Inr (add_points cat earned (push_finding
                          \<lparr>header = info_name info, status = Misconfigured,
                           fvalue = normalizedHeaders hdr, description = None,
                           finding_issue = Some (issue configIssue), criticalRating = r,
                           category = Some cat, weight = Some headerWeight,
                           pointsEarned = Some earned, cookie = None, issues = None\<rparr> st)))
                | Inr None \<Rightarrow>
                    Inr (add_points cat headerWeight (push_finding
                       \<lparr>header = info_name info, status = Present,
                        fvalue = normalizedHeaders hdr, description = None,
                        finding_issue = None, criticalRating = info_criticalRating info,
                        category = Some cat, weight = Some headerWeight,
                        pointsEarned = Some headerWeight, cookie = None, issues = None\<rparr> st)))))"

text \<open>The loop stops at the first exception, which leaves \<^verbatim>\<open>analyzeHeaders\<close>.\<close>

primrec checkAll ::
  "(string \<rightharpoonup> hval) \<Rightarrow> (string \<times> header_info) list \<Rightarrow> loop_state \<Rightarrow> exn + loop_state" where
  "checkAll normalizedHeaders [] st = Inr st"
| "checkAll normalizedHeaders (e # es) st =
     (case checkHeader normalizedHeaders st e of
        Inl err \<Rightarrow> Inl err
      | Inr st' \<Rightarrow> checkAll normalizedHeaders es st')"

text \<open>The amount one disclosure finding adds to \<^verbatim>\<open>dangerousPenalty\<close>.\<close>

definition dangerousFindingPenalty :: "finding \<Rightarrow> rat" where
  "dangerousFindingPenalty f =
     num_or (dangerousHeaderPenalties config (criticalRating f))
       (num_or (defaultPenalties (criticalRating f)) 1)"

text \<open>The amount one nested cookie issue adds to \<^verbatim>\<open>cookiePenalty\<close>.\<close>

definition cookieIssuePenalty :: "cookie_issue \<Rightarrow> rat" where
  "cookieIssuePenalty i =
     (case cookie_issue_rating i of
        None \<Rightarrow> 1
      | Some r \<Rightarrow> num_or (cookieSecurityPenalties config r) (num_or (defaultPenalties r) 1))"

text \<open>
  \<^verbatim>\<open>cookiePenalty\<close> after one cookie finding: each nested issue adds its amount in turn; a
  finding without a nested list adds the amount of its own rating.
\<close>

definition cookieFindingPenalty :: "rat \<Rightarrow> finding \<Rightarrow> rat" where
  "cookieFindingPenalty p f =
     (case issues f of
        Some is \<Rightarrow> foldl (\<lambda>p i. js_add p (cookieIssuePenalty i)) p is
      | None \<Rightarrow>
          js_add p (num_or (cookieSecurityPenalties config (criticalRating f))
                      (num_or (defaultPenalties (criticalRating f)) 1)))"

text \<open>
  The block "Check for dangerous headers": the findings so far and the new findings,
  and the capped penalty.
\<close>

definition dangerous_part ::
  "analyzers_t \<Rightarrow> (string \<rightharpoonup> hval) \<Rightarrow> finding list \<Rightarrow> finding list \<times> rat" where
  "dangerous_part an normalizedHeaders fs =
     (case dangerousHeaders an of
        None \<Rightarrow> (fs, 0)
      | Some analyzer \<Rightarrow>
          (let dangerousResults = analyzer normalizedHeaders
           in if length (analysis_findings dangerousResults) > 0 then
                (let dangerousPenalty =
                       foldl (\<lambda>p f. js_add p (dangerousFindingPenalty f)) 0
                         (analysis_findings dangerousResults);
                     maxPenalty = num_or (Some (maxDangerousHeadersPenalty config)) 10
                 in (fs @ analysis_findings dangerousResults, min dangerousPenalty maxPenalty))
              else (fs, 0)))"

text \<open>The block "Check for cookie security issues".\<close>

definition cookie_part ::
  "analyzers_t \<Rightarrow> (string \<rightharpoonup> hval) \<Rightarrow> finding list \<Rightarrow> finding list \<times> rat" where
  "cookie_part an normalizedHeaders fs =
     (case cookieAnalyzer_opt an of
        None \<Rightarrow> (fs, 0)
      | Some analyzer \<Rightarrow>
          (case normalizedHeaders ''set-cookie'' of
             None \<Rightarrow> (fs, 0)
           | Some v \<Rightarrow>
               if \<not> truthy v then (fs, 0)
               else
                 (let cookieResults = analyzer v
                  in if length (analysis_findings cookieResults) > 0 then
                       (let cookiePenalty =
                              foldl cookieFindingPenalty 0
                                (analysis_findings cookieResults);
                            maxPenalty = num_or (Some (maxCookieSecurityPenalty config)) 10
                        in (fs @ analysis_findings cookieResults, min cookiePenalty maxPenalty))
                     else (fs, 0))))"

definition calculateGrade :: "rat \<Rightarrow> string" where
  "calculateGrade sc =
     (if sc \<ge> thrA (scoringThresholds config) then ''A''
      else if sc \<ge> thrB (scoringThresholds config) then ''B''
      else if sc \<ge> thrC (scoringThresholds config) then ''C''
      else if sc \<ge> thrD (scoringThresholds config) then ''D''
      else if sc \<ge> thrE (scoringThresholds config) then ''E''
      else ''F'')"

record category_score =
  earned :: rat
  total :: rat
  weighted :: rat

record penalties_t =
  dangerous :: rat
  cookies :: rat

record score_breakdown =
  essential :: category_score
  advanced :: category_score
  cors :: category_score
  penalties :: penalties_t

record scan_result =
  url :: string
  statusCode :: int
  headers :: "string \<rightharpoonup> hval"
  findings :: "finding list"
  score :: rat
  grade :: string
  scoreBreakdown :: score_breakdown

record checker =
  securityHeaders :: "(string \<times> header_info) list"
  analyzers :: analyzers_t

definition createDefaultChecker :: "js_runtime \<Rightarrow> checker" where
  "createDefaultChecker rt = \<lparr>securityHeaders = allHeaders rt, analyzers = defaultAnalyzers\<rparr>"

text \<open>
  \<^verbatim>\<open>analyzeHeaders(url, headers, statusCode)\<close>. The raw header object is given as the list of
  its entries, in the order of \<^verbatim>\<open>Object.entries\<close>.
\<close>

definition analyzeHeaders ::
  "checker \<Rightarrow> string \<Rightarrow> (string \<times> hval) list \<Rightarrow> int \<Rightarrow> exn + scan_result" where
  "analyzeHeaders this u hs code =
     (let normalizedHeaders = normalize hs;
          totalEssentialPoints = totalPoints (essentialHeaderWeights config) 60;
          totalAdvancedPoints = totalPoints (advancedHeaderWeights config) 25;
          totalCorsPoints = totalPoints (corsHeaderWeights config) 15
      in case checkAll normalizedHeaders (securityHeaders this)
                \<lparr>ls_findings = [], earnedEssentialPoints = 0, earnedAdvancedPoints = 0,
                 earnedCorsPoints = 0\<rparr> of
           Inl err \<Rightarrow> Inl err
         | Inr st \<Rightarrow>
             (let d = dangerous_part (analyzers this) normalizedHeaders (ls_findings st);
                  dangerousPenalty = snd d;
                  c = cookie_part (analyzers this) normalizedHeaders (fst d);
                  cookiePenalty = snd c;
                  essentialPercent =
                    (if totalEssentialPoints > 0
                     then js_div (earnedEssentialPoints st) totalEssentialPoints else 0);
                  advancedPercent =
                    (if totalAdvancedPoints > 0
                     then js_div (earnedAdvancedPoints st) totalAdvancedPoints else 0);
                  corsPercent =
                    (if totalCorsPoints > 0
                     then js_div (earnedCorsPoints st) totalCorsPoints else 0);
                  essentialContribution = 60;
                  advancedContribution = 25;
                  corsContribution = 15;
                  essentialScore = js_mul essentialPercent essentialContribution;
                  advancedScore = js_mul advancedPercent advancedContribution;
                  corsScore = js_mul corsPercent corsContribution;
                  raw = js_sub (js_sub (js_add (js_add essentialScore advancedScore) corsScore)
                                  dangerousPenalty) cookiePenalty;
                  final = max 0 (min 100 (Math_round raw))
              in Inr \<lparr>url = u, statusCode = code, headers = normalizedHeaders,
                      findings = fst c, score = final, grade = calculateGrade final,
                      scoreBreakdown =
                        \<lparr>essential = \<lparr>earned = earnedEssentialPoints st,
                                       total = totalEssentialPoints,
                                       weighted = essentialScore\<rparr>,
                         advanced = \<lparr>earned = earnedAdvancedPoints st,
                                      total = totalAdvancedPoints,
                                      weighted = advancedScore\<rparr>,
                         cors = \<lparr>earned = earnedCorsPoints st, total = totalCorsPoints,
                                  weighted = corsScore\<rparr>,
                         penalties = \<lparr>dangerous = dangerousPenalty,
                                       cookies = cookiePenalty\<rparr>\<rparr>\<rparr>))"

text \<open>
  An input is well formed when only \<^verbatim>\<open>Set-Cookie\<close> carries an array of values: Node joins
  the repeated values of every other header into one string.
\<close>

definition wf_headers :: "(string \<times> hval) list \<Rightarrow> bool" where
  "wf_headers hs =
     list_all (\<lambda>kv. case snd kv of Str s \<Rightarrow> True
                      | Arr xs \<Rightarrow> toLowerCase (fst kv) = ''set-cookie'') hs"

section \<open>Notions used in the statements\<close>

text \<open>
  A registry entry is correctly configured in a header map when its header is present and
  its validator, if it has one, reports no issue.
\<close>

definition configured_ok :: "(string \<rightharpoonup> hval) \<Rightarrow> string \<times> header_info \<Rightarrow> bool" where
  "configured_ok m e =
     (present m (fst e) \<and>
      (case checkConfiguration (snd e) of
         None \<Rightarrow> True
       | Some check \<Rightarrow> (case m (fst e) of Some v \<Rightarrow> check v m = Inr None | None \<Rightarrow> False)))"

text \<open>
  The earned total of a category after full credit for every entry of a registry: the
  weights of the entries that fall into the category are added in turn.
\<close>

definition cat_total :: "category \<Rightarrow> (string \<times> header_info) list \<Rightarrow> rat \<Rightarrow> rat" where
  "cat_total cat reg a =
     foldl (\<lambda>a e. if snd (headerWeight_of (fst e)) = cat
                   then js_add a (fst (headerWeight_of (fst e))) else a) a reg"

text \<open>Projections of a result that may be an exception.\<close>

definition score_of :: "exn + scan_result \<Rightarrow> rat option" where
  "score_of res = (case res of Inl e \<Rightarrow> None | Inr r \<Rightarrow> Some (score r))"

definition dangerous_penalty_of :: "exn + scan_result \<Rightarrow> rat option" where
  "dangerous_penalty_of res =
     (case res of Inl e \<Rightarrow> None | Inr r \<Rightarrow> Some (dangerous (penalties (scoreBreakdown r))))"

text \<open>The first finding that a result has for a header.\<close>

definition finding_of :: "exn + scan_result \<Rightarrow> string \<Rightarrow> finding option" where
  "finding_of res nm =
     (case res of Inl e \<Rightarrow> None | Inr r \<Rightarrow> find (\<lambda>f. header f = nm) (findings r))"



section \<open>Sample inputs\<close>

definition quoted :: "string \<Rightarrow> string" where
  "quoted s = dquote @ s @ dquote"

definition sample_report_to :: string where
  "sample_report_to =
     ''{'' @ quoted ''group'' @ '':'' @ quoted ''default'' @ '','' @ quoted ''max_age''
       @ '':86400,'' @ quoted ''endpoints'' @ '':[{'' @ quoted ''url'' @ '':''
       @ quoted ''https://reports.example/r'' @ ''}]}''"

definition sample_nel :: string where
  "sample_nel =
     ''{'' @ quoted ''report_to'' @ '':'' @ quoted ''default'' @ '','' @ quoted ''max_age''
       @ '':86400}''"

definition sample_clear_site_data :: string where
  "sample_clear_site_data = quoted ''cache''"

text \<open>\<^verbatim>\<open>JSON.parse\<close> restricted to the three sample documents.\<close>

definition sample_runtime :: js_runtime where
  "sample_runtime =
     \<lparr>JSON_parse = (\<lambda>s.
        if s = sample_report_to then
          Some (JObj [(''group'', JStr ''default''), (''max_age'', JNum 86400),
                      (''endpoints'', JArr [JObj [(''url'', JStr ''https://reports.example/r'')]])])
        else if s = sample_nel then
          Some (JObj [(''report_to'', JStr ''default''), (''max_age'', JNum 86400)])
        else if s = sample_clear_site_data then Some (JStr ''cache'')
        else None),
      coerced_lt = (\<lambda>v c. Inr False)\<rparr>"

text \<open>A response with every scored header in place and nothing disclosed.\<close>

definition sample_hardened :: "(string \<times> hval) list" where
  "sample_hardened =
     [(''Strict-Transport-Security'', Str ''max-age=31536000; includeSubDomains; preload''),
      (''Content-Security-Policy'',
         Str ''default-src https:; script-src https:; style-src https:''),
      (''X-Content-Type-Options'', Str ''nosniff''),
      (''X-Frame-Options'', Str ''DENY''),
      (''X-XSS-Protection'', Str ''1; mode=block''),
      (''Referrer-Policy'', Str ''no-referrer''),
      (''Permissions-Policy'', Str ''camera=()''),
      (''Cache-Control'', Str ''no-store''),
      (''Expect-CT'', Str ''max-age=86400, enforce''),
      (''Report-To'', Str sample_report_to),
      (''NEL'', Str sample_nel),
      (''Clear-Site-Data'', Str sample_clear_site_data),
      (''Cross-Origin-Embedder-Policy'', Str ''require-corp''),
      (''Cross-Origin-Opener-Policy'', Str ''same-origin''),
      (''Cross-Origin-Resource-Policy'', Str ''same-origin''),
      (''Server-Timing'', Str ''db;dur=53''),
      (''Access-Control-Allow-Origin'', Str ''https://app.example''),
      (''Access-Control-Allow-Credentials'', Str ''true''),
      (''Access-Control-Allow-Methods'', Str ''GET, POST''),
      (''Access-Control-Allow-Headers'', Str ''Content-Type''),
      (''Access-Control-Expose-Headers'', Str ''X-Request-Id''),
      (''Access-Control-Max-Age'', Str ''7200'')]"

text \<open>
  A response whose HSTS value has no \<^verbatim>\<open>max-age\<close> and which allows credentials for every
  origin: two issues of severity high.
\<close>

definition sample_misconfigured :: "(string \<times> hval) list" where
  "sample_misconfigured =
     [(''Strict-Transport-Security'', Str ''preload''),
      (''Access-Control-Allow-Origin'', Str ''*''),
      (''Access-Control-Allow-Credentials'', Str ''true'')]"



text \<open>A response with a weak HSTS value, two cache banners and a cookie.\<close>

definition sample_weak :: "(string \<times> hval) list" where
  "sample_weak =
     [(''Strict-Transport-Security'', Str ''max-age=1000''),
      (''X-Content-Type-Options'', Str ''nosniff''),
      (''Via'', Str ''proxy''),
      (''X-Cache'', Str ''HIT''),
      (''Set-Cookie'', Arr [''lang=en; Secure; HttpOnly; SameSite=Lax''])]"

section \<open>Evaluation rules\<close>

lemmas char_defs = isDigit_def isWhiteSpace_def digitValue_def lowerChar_def upperChar_def
  toLowerCase_def toUpperCase_def trim_def

lemmas issue_defs = mk_issue_def no_issue_def str_method_def try_catch_def

section \<open>Rounding to doubles\<close>

lemma floor_rat_numeral:
  "\<lfloor>(numeral a :: rat) / numeral b\<rfloor> = numeral a div numeral b"
  "\<lfloor>- (numeral a :: rat) / numeral b\<rfloor> = - numeral a div numeral b"
  "\<lfloor>- ((numeral a :: rat) / numeral b)\<rfloor> = - numeral a div numeral b"
  using floor_divide_of_int_eq [of "numeral a" "numeral b", where ?'a = rat]
        floor_divide_of_int_eq [of "- numeral a" "numeral b", where ?'a = rat]
  by simp_all

text \<open>The exponent that \<open>ilog2\<close> computes is the binary exponent.\<close>

lemma ilog2_ge1:
  assumes "1 \<le> x"
  shows "2 powi (ilog2 x) \<le> x \<and> x < 2 powi (ilog2 x + 1)"
proof -
  let ?n = "nat \<lfloor>x\<rfloor>"
  let ?L = "floorlog 2 ?n"
  have n: "0 < ?n" using assms by simp
  from floorlog_bounds [OF n, of 2] have b: "2 ^ (?L - 1) \<le> ?n" "?n < 2 ^ ?L" by simp_all
  have L: "1 \<le> ?L" using n by (simp add: floorlog_def)
  have il: "ilog2 x = int (?L - 1)" using assms L by (simp add: ilog2_def)
  have fx: "(of_nat ?n :: rat) = of_int \<lfloor>x\<rfloor>" using assms by simp
  have "(2::rat) ^ (?L - 1) = of_nat (2 ^ (?L - 1))" by simp
  also have "\<dots> \<le> of_nat ?n" using b(1) by (simp only: of_nat_le_iff)
  also have "\<dots> \<le> x" unfolding fx by simp
  finally have lo: "2 powi (ilog2 x) \<le> x" unfolding il by simp
  have "?n + 1 \<le> 2 ^ ?L" using b(2) by linarith
  then have "(of_nat (?n + 1) :: rat) \<le> of_nat (2 ^ ?L)" by (simp only: of_nat_le_iff)
  then have "of_int \<lfloor>x\<rfloor> + 1 \<le> (2::rat) ^ ?L" using fx by simp
  moreover have "x < of_int \<lfloor>x\<rfloor> + 1" by linarith
  ultimately have "x < 2 ^ ?L" by linarith
  moreover have "ilog2 x + 1 = int ?L" using il L by simp
  ultimately have hi: "x < 2 powi (ilog2 x + 1)" by simp
  from lo hi show ?thesis ..
qed

lemma ilog2_lt1:
  assumes "0 < x" and "x < 1"
  shows "2 powi (ilog2 x) \<le> x \<and> x < 2 powi (ilog2 x + 1)"
proof -
  let ?y = "1 / x"
  let ?c = "\<lceil>?y\<rceil>"
  let ?m = "nat ?c - 1"
  let ?L = "floorlog 2 ?m"
  have y: "1 < ?y" using assms by simp
  then have c2: "2 \<le> ?c" by linarith
  then have m: "0 < ?m" by linarith
  from floorlog_bounds [OF m, of 2] have b: "2 ^ (?L - 1) \<le> ?m" "?m < 2 ^ ?L" by simp_all
  have L: "1 \<le> ?L" using m by (simp add: floorlog_def)
  have il: "ilog2 x = - int ?L" using assms by (simp add: ilog2_def)
  have c0: "0 \<le> ?c" and c1: "1 \<le> nat ?c" using c2 by linarith+
  have "(of_nat ?m :: rat) = of_nat (nat ?c) - of_nat 1" using c1 by (rule of_nat_diff)
  also have "(of_nat (nat ?c) :: rat) = of_int ?c" using c0 by (rule of_nat_nat)
  finally have mc: "(of_nat ?m :: rat) = of_int ?c - 1" by simp
  have "?m + 1 \<le> 2 ^ ?L" using b(2) by linarith
  then have "(of_nat (?m + 1) :: rat) \<le> of_nat (2 ^ ?L)" by (simp only: of_nat_le_iff)
  then have "of_int ?c \<le> (2::rat) ^ ?L" using mc by simp
  moreover have "?y \<le> of_int ?c" by linarith
  ultimately have "?y \<le> 2 ^ ?L" by linarith
  then have "1 \<le> x * 2 ^ ?L" using assms(1) by (simp add: field_simps)
  then have lo: "2 powi (ilog2 x) \<le> x"
    unfolding il by (simp add: power_int_minus field_simps)
  have "(of_nat (2 ^ (?L - 1)) :: rat) \<le> of_nat ?m" using b(1) by (simp only: of_nat_le_iff)
  then have "(2::rat) ^ (?L - 1) \<le> of_int ?c - 1" using mc by simp
  moreover have "of_int ?c - 1 < ?y" by linarith
  ultimately have "(2::rat) ^ (?L - 1) < ?y" by linarith
  then have x: "x * 2 ^ (?L - 1) < 1" using assms(1) by (simp add: field_simps)
  have "ilog2 x + 1 = - int (?L - 1)" using il L by simp
  then have P: "2 powi (ilog2 x + 1) = 1 / (2::rat) ^ (?L - 1)"
    by (simp add: power_int_minus field_simps)
  have "x < 1 / (2::rat) ^ (?L - 1)" using x by (simp add: pos_less_divide_eq)
  then have hi: "x < 2 powi (ilog2 x + 1)" by (simp only: P)
  from lo hi show ?thesis ..
qed

lemma ilog2_bounds:
  assumes "0 < x"
  shows "2 powi (ilog2 x) \<le> x" and "x < 2 powi (ilog2 x + 1)"
  using ilog2_ge1 [of x] ilog2_lt1 [of x] assms by (cases "1 \<le> x"; simp)+

lemma powi2_less_iff: "(2::rat) powi a < 2 powi b \<longleftrightarrow> a < b"
proof
  assume l: "(2::rat) powi a < 2 powi b"
  show "a < b"
  proof (rule ccontr)
    assume "\<not> a < b"
    then have "b \<le> a" by simp
    then have "(2::rat) powi b \<le> 2 powi a" by (rule power_int_increasing) simp
    with l show False by simp
  qed
next
  assume "a < b"
  then show "(2::rat) powi a < 2 powi b" by (rule power_int_strict_increasing) simp
qed

lemma ilog2_less:
  assumes "0 < x" and "x < 2 powi k"
  shows "ilog2 x < k"
proof -
  from ilog2_bounds(1) [OF assms(1)] assms(2) have "(2::rat) powi ilog2 x < 2 powi k" by simp
  then show ?thesis by (simp only: powi2_less_iff)
qed

lemma ilog2_ge:
  assumes "0 < x" and "2 powi k \<le> x"
  shows "k \<le> ilog2 x"
proof -
  from ilog2_bounds(2) [OF assms(1)] assms(2) have "(2::rat) powi k < 2 powi (ilog2 x + 1)" by simp
  then have "k < ilog2 x + 1" by (simp only: powi2_less_iff)
  then show ?thesis by simp
qed

lemma round_even_int [simp]: "round_even (of_int z) = z"
  by (simp add: round_even_def)

lemma round_even_error: "\<bar>of_int (round_even y) - y\<bar> \<le> 1 / 2"
proof -
  have "of_int \<lfloor>y\<rfloor> \<le> y" "y < of_int \<lfloor>y\<rfloor> + 1" by linarith+
  then show ?thesis by (auto simp: round_even_def Let_def abs_le_iff)
qed

lemma fl_exact:
  assumes "x = of_int k * 2 powi j" and "\<bar>k\<bar> < 2 ^ 53" and "- 1074 \<le> j"
  shows "fl x = x"
proof (cases "x = 0")
  case True
  then show ?thesis by (simp add: fl_def)
next
  case False
  define E where "E = max (ilog2 \<bar>x\<bar>) (- 1022) - 52"
  have pos: "0 < \<bar>x\<bar>" using False by simp
  have "\<bar>x\<bar> = of_int \<bar>k\<bar> * 2 powi j"
    unfolding assms(1) by (simp add: abs_mult)
  also have "\<dots> < of_int (2 ^ 53) * 2 powi j"
    using assms(2) by (intro mult_strict_right_mono) (simp_all only: of_int_less_iff zero_less_power_int zero_less_numeral)
  also have "\<dots> = 2 powi (53 + j)"
    by (simp add: power_int_add)
  finally have "ilog2 \<bar>x\<bar> < 53 + j" by (rule ilog2_less [OF pos])
  then have E: "E \<le> j" using assms(3) by (simp add: E_def)
  define d where "d = nat (j - E)"
  have j: "j = E + int d" using E by (simp add: d_def)
  have pj: "(2::rat) powi j = 2 powi E * 2 ^ d"
    by (subst j) (simp add: power_int_add)
  have xe: "x = of_int (k * 2 ^ d) * 2 powi E"
    by (simp add: assms(1) pj)
  have "x / 2 powi E = of_int (k * 2 ^ d)"
    by (subst xe) simp
  then have "of_int (round_even (x / 2 powi E)) * 2 powi E = x"
    using xe by (simp only: round_even_int)
  then show ?thesis using False by (simp add: fl_def Let_def E_def)
qed

lemma fl_error:
  assumes "\<bar>x\<bar> < 2 powi k" and "- 1021 \<le> k"
  shows "\<bar>fl x - x\<bar> \<le> 2 powi (k - 54)"
proof (cases "x = 0")
  case True
  then show ?thesis by (simp add: fl_def)
next
  case False
  let ?E = "max (ilog2 \<bar>x\<bar>) (- 1022) - 52"
  let ?y = "x / 2 powi ?E"
  have pos: "0 < \<bar>x\<bar>" using False by simp
  have "ilog2 \<bar>x\<bar> < k" using pos assms(1) by (rule ilog2_less)
  then have E: "?E \<le> k - 53" using assms(2) by simp
  have p: "0 < (2::rat) powi ?E" by simp
  have x: "x = ?y * 2 powi ?E" by simp
  have "fl x - x = (of_int (round_even ?y) - ?y) * 2 powi ?E"
    using False by (simp add: fl_def Let_def algebra_simps)
  then have "\<bar>fl x - x\<bar> = \<bar>of_int (round_even ?y) - ?y\<bar> * 2 powi ?E"
    by (simp add: abs_mult)
  also have "\<dots> \<le> (1 / 2) * 2 powi ?E"
    by (intro mult_right_mono round_even_error) simp
  also have "\<dots> = 2 powi (?E - 1)"
    by (simp add: power_int_diff)
  also have "\<dots> \<le> 2 powi (k - 54)"
    using E by (intro power_int_increasing) simp_all
  finally show ?thesis .
qed

lemma ilog2_eq:
  assumes "2 powi e \<le> x" and "x < 2 powi (e + 1)"
  shows "ilog2 x = e"
proof -
  have pos: "0 < x" using assms(1) zero_less_power_int [of "2::rat" e] by linarith
  from ilog2_less [OF pos assms(2)] ilog2_ge [OF pos assms(1)] show ?thesis by simp
qed

lemma fl_eval:
  assumes "2 powi e \<le> \<bar>x\<bar>" and "\<bar>x\<bar> < 2 powi (e + 1)" and "- 1022 \<le> e"
  shows "fl x = of_int (round_even (x / 2 powi (e - 52))) * 2 powi (e - 52)"
proof -
  have "0 < (2::rat) powi e" by simp
  with assms(1) have "0 < \<bar>x\<bar>" by linarith
  then have "x \<noteq> 0" by simp
  moreover have "max (ilog2 \<bar>x\<bar>) (- 1022) = e"
    using ilog2_eq [OF assms(1) assms(2)] assms(3) by simp
  ultimately show ?thesis by (simp add: fl_def Let_def)
qed

text \<open>
  Evaluating \<open>fl\<close> and the four operations at numerals.
\<close>

lemmas fl_literal =
  fl_def [of 0] fl_def [of 1] fl_def [of "numeral a"] fl_def [of "numeral a / numeral b"]
  fl_def [of "1 / numeral b"] fl_def [of "- numeral a"] fl_def [of "- (numeral a / numeral b)"]
  fl_def [of "- (1 / numeral b)"]
  for a b

lemmas ilog2_literal =
  ilog2_def [of 1] ilog2_def [of "numeral a"] ilog2_def [of "numeral a / numeral b"]
  ilog2_def [of "1 / numeral b"]
  for a b

lemmas round_even_literal =
  round_even_def [of 0] round_even_def [of 1] round_even_def [of "numeral a"]
  round_even_def [of "numeral a / numeral b"] round_even_def [of "1 / numeral b"]
  round_even_def [of "- numeral a"] round_even_def [of "- (numeral a / numeral b)"]
  round_even_def [of "- (1 / numeral b)"]
  for a b

lemmas floorlog_literal =
  compute_floorlog [of 2 0] compute_floorlog [of 2 1] compute_floorlog [of 2 "Suc 0"]
  compute_floorlog [of 2 "numeral a"]
  for a

lemmas fl_eval_defs = fl_literal ilog2_literal round_even_literal floorlog_literal
  floor_rat_numeral ceiling_def js_add_def js_sub_def js_mul_def js_div_def

section \<open>The HSTS validator\<close>

text \<open>
  Claim C4. The HSTS validator tests its conditions in a fixed order and returns at the
  first that holds: a high issue when the value has no \<^verbatim>\<open>max-age=\<close>; otherwise a medium
  issue when the max-age it reads is below 31536000; otherwise a low issue when
  \<^verbatim>\<open>includeSubDomains\<close> is absent; otherwise an info issue when \<^verbatim>\<open>preload\<close> is absent;
  otherwise no issue. So \<^verbatim>\<open>max-age=31536000; includeSubDomains; preload\<close> has no issue and
  \<^verbatim>\<open>max-age=1000\<close> has a medium issue.
\<close>

theorem hsts_priority_order:
  "(\<not> js_includes s ''max-age='' \<longrightarrow>
      (\<exists>txt. checkHstsConfiguration (Str s) hs = mk_issue txt High))
   \<and> (js_includes s ''max-age='' \<and> (\<exists>n. hsts_max_age s = Some n \<and> n < 31536000) \<longrightarrow>
      checkHstsConfiguration (Str s) hs = mk_issue ''HSTS max-age is less than 1 year'' Medium)
   \<and> (js_includes s ''max-age='' \<and> \<not> (\<exists>n. hsts_max_age s = Some n \<and> n < 31536000)
      \<and> \<not> js_includes s ''includeSubDomains'' \<longrightarrow>
      checkHstsConfiguration (Str s) hs
        = mk_issue ''HSTS missing includeSubDomains directive'' Low)
   \<and> (js_includes s ''max-age='' \<and> \<not> (\<exists>n. hsts_max_age s = Some n \<and> n < 31536000)
      \<and> js_includes s ''includeSubDomains'' \<and> \<not> js_includes s ''preload'' \<longrightarrow>
      checkHstsConfiguration (Str s) hs = mk_issue ''HSTS missing preload directive'' Info)
   \<and> (js_includes s ''max-age='' \<and> \<not> (\<exists>n. hsts_max_age s = Some n \<and> n < 31536000)
      \<and> js_includes s ''includeSubDomains'' \<and> js_includes s ''preload'' \<longrightarrow>
      checkHstsConfiguration (Str s) hs = no_issue)
   \<and> checkHstsConfiguration (Str ''max-age=31536000; includeSubDomains; preload'') hs = no_issue
   \<and> checkHstsConfiguration (Str ''max-age=1000'') hs
        = mk_issue ''HSTS max-age is less than 1 year'' Medium"
  apply (intro conjI)
  subgoal
    by (cases s) (auto simp: checkHstsConfiguration_def hsts_max_age_def issue_defs)
  subgoal
    by (cases s)
       (auto simp: checkHstsConfiguration_def hsts_max_age_def issue_defs split: option.splits)
  subgoal
    by (cases s)
       (auto simp: checkHstsConfiguration_def hsts_max_age_def issue_defs split: option.splits)
  subgoal
    by (cases s)
       (auto simp: checkHstsConfiguration_def hsts_max_age_def issue_defs split: option.splits)
  subgoal
    by (cases s)
       (auto simp: checkHstsConfiguration_def hsts_max_age_def issue_defs split: option.splits)
  subgoal
    by (simp add: checkHstsConfiguration_def issue_defs parseInt_def char_defs Let_def)
  subgoal
    by (simp add: checkHstsConfiguration_def issue_defs parseInt_def char_defs Let_def)
  done

theorem hsts_priority_order_witness:
  "checkHstsConfiguration (Str ''preload'') Map.empty
     = mk_issue ''HSTS header missing max-age directive'' High
   \<and> checkHstsConfiguration (Str ''max-age=600; includeSubDomains'') Map.empty
     = mk_issue ''HSTS max-age is less than 1 year'' Medium
   \<and> checkHstsConfiguration (Str ''max-age=31536000; preload'') Map.empty
     = mk_issue ''HSTS missing includeSubDomains directive'' Low
   \<and> checkHstsConfiguration (Str ''max-age=31536000; includeSubDomains'') Map.empty
     = mk_issue ''HSTS missing preload directive'' Info
   \<and> checkHstsConfiguration (Str ''max-age=63072000; includeSubDomains; preload'') Map.empty
     = no_issue"
proof -
  have b: "js_includes ''max-age=600; includeSubDomains'' ''max-age=''
           \<and> (\<exists>n. hsts_max_age ''max-age=600; includeSubDomains'' = Some n \<and> n < 31536000)"
    by (simp add: hsts_max_age_def parseInt_def char_defs Let_def)
  have c: "js_includes ''max-age=31536000; preload'' ''max-age=''
           \<and> \<not> (\<exists>n. hsts_max_age ''max-age=31536000; preload'' = Some n \<and> n < 31536000)
           \<and> \<not> js_includes ''max-age=31536000; preload'' ''includeSubDomains''"
    by (simp add: hsts_max_age_def parseInt_def char_defs Let_def)
  have d: "js_includes ''max-age=31536000; includeSubDomains'' ''max-age=''
           \<and> \<not> (\<exists>n. hsts_max_age ''max-age=31536000; includeSubDomains'' = Some n
                      \<and> n < 31536000)
           \<and> js_includes ''max-age=31536000; includeSubDomains'' ''includeSubDomains''
           \<and> \<not> js_includes ''max-age=31536000; includeSubDomains'' ''preload''"
    by (simp add: hsts_max_age_def parseInt_def char_defs Let_def)
  have e: "js_includes ''max-age=63072000; includeSubDomains; preload'' ''max-age=''
           \<and> \<not> (\<exists>n. hsts_max_age ''max-age=63072000; includeSubDomains; preload'' = Some n
                      \<and> n < 31536000)
           \<and> js_includes ''max-age=63072000; includeSubDomains; preload'' ''includeSubDomains''
           \<and> js_includes ''max-age=63072000; includeSubDomains; preload'' ''preload''"
    by (simp add: hsts_max_age_def parseInt_def char_defs Let_def)
  have A: "checkHstsConfiguration (Str ''preload'') Map.empty
               = mk_issue ''HSTS header missing max-age directive'' High"
    by (simp add: checkHstsConfiguration_def issue_defs)
  have B: "checkHstsConfiguration (Str ''max-age=600; includeSubDomains'') Map.empty
               = mk_issue ''HSTS max-age is less than 1 year'' Medium"
    by (rule mp [OF hsts_priority_order [THEN conjunct2, THEN conjunct1] b])
  have C: "checkHstsConfiguration (Str ''max-age=31536000; preload'') Map.empty
               = mk_issue ''HSTS missing includeSubDomains directive'' Low"
    by (rule mp [OF hsts_priority_order [THEN conjunct2, THEN conjunct2, THEN conjunct1] c])
  have D: "checkHstsConfiguration (Str ''max-age=31536000; includeSubDomains'') Map.empty
               = mk_issue ''HSTS missing preload directive'' Info"
    by (rule mp [OF hsts_priority_order
                      [THEN conjunct2, THEN conjunct2, THEN conjunct2, THEN conjunct1] d])
  have E: "checkHstsConfiguration (Str ''max-age=63072000; includeSubDomains; preload'')
               Map.empty = no_issue"
    by (rule mp [OF hsts_priority_order
                      [THEN conjunct2, THEN conjunct2, THEN conjunct2, THEN conjunct2,
                       THEN conjunct1] e])
  show ?thesis
    by (intro conjI) (rule A, rule B, rule C, rule D, rule E)
qed

section \<open>The cookie analyzer\<close>

lemmas cookie_defs = cookieAnalyzer_def cookieAnalyzer_step_def cookie_finding_def
  cookieIssues_of_def secureAttributes_of_def cookieName_of_def push_if_def ci_startsWith_def

lemma cookieAnalyzer_findings_foldl:
  "analysis_findings (foldl cookieAnalyzer_step acc cks)
     = analysis_findings acc @ map cookie_finding (filter (\<lambda>ck. cookieIssues_of ck \<noteq> []) cks)"
  by (induction cks arbitrary: acc) (simp_all add: cookieAnalyzer_step_def Let_def)


text \<open>
  Claim C6. For every list of raw \<^verbatim>\<open>Set-Cookie\<close> values the cookie analyzer emits at most
  one finding per cookie: its findings are, in order, the findings of exactly those cookies
  that have an issue. Each is \<^verbatim>\<open>misconfigured\<close> and keeps the per-attribute issues of its
  cookie as a nested list. The single value \<^verbatim>\<open>session=abc123; Secure\<close> yields exactly one
  finding, with two nested issues: missing HttpOnly (high) and missing SameSite (medium).
\<close>

theorem cookie_findings_one_per_cookie:
  "analysis_findings (cookieAnalyzer v)
     = map cookie_finding (filter (\<lambda>ck. cookieIssues_of ck \<noteq> []) (cookies_of v))
   \<and> length (analysis_findings (cookieAnalyzer v)) \<le> length (cookies_of v)
   \<and> status (cookie_finding ck) = Misconfigured
   \<and> fvalue (cookie_finding ck) = Some (Str ck)
   \<and> issues (cookie_finding ck) = Some (map fst (cookieIssues_of ck))
   \<and> analysis_findings (cookieAnalyzer (Str ''session=abc123; Secure''))
       = [\<lparr>header = ''Cookie Security'', status = Misconfigured,
           fvalue = Some (Str ''session=abc123; Secure''), description = None,
           finding_issue = None, criticalRating = High, category = None, weight = None,
           pointsEarned = None, cookie = Some ''session'',
           issues = Some
             [\<lparr>issue_type = ''missing_httponly'',
               issue_description = ''Missing HttpOnly attribute'',
               cookie_issue_rating = Some High\<rparr>,
              \<lparr>issue_type = ''missing_samesite'',
               issue_description = ''Missing SameSite attribute'',
               cookie_issue_rating = Some Medium\<rparr>]\<rparr>]"
  apply (intro conjI)
  subgoal by (simp add: cookieAnalyzer_def cookieAnalyzer_findings_foldl)
  subgoal by (simp add: cookieAnalyzer_def cookieAnalyzer_findings_foldl)
  subgoal by (simp add: cookie_finding_def)
  subgoal by (simp add: cookie_finding_def)
  subgoal by (simp add: cookie_finding_def)
  subgoal by (simp add: cookie_defs char_defs Let_def)
  done

theorem cookie_findings_one_per_cookie_witness:
  "length (analysis_findings (cookieAnalyzer (Arr [''id=7; Secure; HttpOnly; SameSite=Lax'',
                                                   ''auth_token=abc; Secure; HttpOnly'',
                                                   ''lang=en''])))
     = 2"
proof -
  have "filter (\<lambda>ck. cookieIssues_of ck \<noteq> [])
          (cookies_of (Arr [''id=7; Secure; HttpOnly; SameSite=Lax'',
                            ''auth_token=abc; Secure; HttpOnly'', ''lang=en'']))
        = [''auth_token=abc; Secure; HttpOnly'', ''lang=en'']"
    by (simp add: cookie_defs char_defs Let_def)
  then show ?thesis
    by (simp add: cookie_findings_one_per_cookie [THEN conjunct1])
qed

section \<open>The validators of the reporting headers\<close>

lemmas advanced_defs = checkReportToConfiguration_def reportTo_body_def
  checkNelConfiguration_def nel_body_def checkClearSiteDataConfiguration_def
  clearSiteData_body_def checkExpectCtConfiguration_def

lemma try_catch_returns: "handler = Inr r \<Longrightarrow> \<exists>r'. try_catch body handler = Inr r'"
  by (cases body) (simp_all add: try_catch_def)

text \<open>
  Claim C7, as the code has it. The validators of \<^verbatim>\<open>Report-To\<close>, \<^verbatim>\<open>NEL\<close> and
  \<^verbatim>\<open>Clear-Site-Data\<close> never throw, whatever \<^verbatim>\<open>JSON.parse\<close> does: when it fails, and also when
  inspecting the parsed value throws (a parsed \<^verbatim>\<open>null\<close>), the result is a low issue
  reporting invalid JSON. The validator of \<^verbatim>\<open>Expect-CT\<close> does not parse JSON: it never throws
  either, and reports a medium issue when \<^verbatim>\<open>max-age=\<close> is absent, else a low issue when
  \<^verbatim>\<open>enforce\<close> is absent, else nothing.
\<close>

theorem reporting_validators_never_throw:
  "(\<exists>r. checkReportToConfiguration rt v hs = Inr r)
   \<and> (\<exists>r. checkNelConfiguration rt v hs = Inr r)
   \<and> (\<exists>r. checkClearSiteDataConfiguration rt v hs = Inr r)
   \<and> (\<exists>r. checkExpectCtConfiguration v hs = Inr r)
   \<and> (JSON_parse rt (toString v) = None \<longrightarrow>
        checkReportToConfiguration rt v hs
          = mk_issue ''Report-To header contains invalid JSON'' Low
        \<and> checkNelConfiguration rt v hs = mk_issue ''NEL header contains invalid JSON'' Low
        \<and> checkClearSiteDataConfiguration rt v hs
          = mk_issue ''Clear-Site-Data header contains invalid JSON'' Low)
   \<and> (JSON_parse rt (toString v) = Some JNull \<longrightarrow>
        checkReportToConfiguration rt v hs
          = mk_issue ''Report-To header contains invalid JSON'' Low
        \<and> checkNelConfiguration rt v hs = mk_issue ''NEL header contains invalid JSON'' Low)
   \<and> checkExpectCtConfiguration v hs
        = (if \<not> value_includes v ''max-age='' then
             mk_issue ''Expect-CT header missing max-age directive'' Medium
           else if \<not> value_includes v ''enforce'' then
             mk_issue ''Expect-CT header missing enforce directive'' Low
           else no_issue)"
  apply (intro conjI)
  subgoal by (simp add: checkReportToConfiguration_def try_catch_returns mk_issue_def)
  subgoal by (simp add: checkNelConfiguration_def try_catch_returns mk_issue_def)
  subgoal by (simp add: checkClearSiteDataConfiguration_def try_catch_returns mk_issue_def)
  subgoal by (simp add: checkExpectCtConfiguration_def mk_issue_def no_issue_def)
  subgoal by (simp add: advanced_defs try_catch_def)
  subgoal by (simp add: advanced_defs try_catch_def)
  subgoal by (simp add: checkExpectCtConfiguration_def)
  done

theorem reporting_validators_never_throw_witness:
  "checkReportToConfiguration
     \<lparr>JSON_parse = (\<lambda>s. if s = ''null'' then Some JNull else None),
      coerced_lt = (\<lambda>j c. Inr False)\<rparr> (Str ''max-age=86400'') Map.empty
     = mk_issue ''Report-To header contains invalid JSON'' Low
   \<and> checkNelConfiguration
     \<lparr>JSON_parse = (\<lambda>s. if s = ''null'' then Some JNull else None),
      coerced_lt = (\<lambda>j c. Inr False)\<rparr> (Str ''null'') Map.empty
     = mk_issue ''NEL header contains invalid JSON'' Low"
proof -
  let ?rt = "\<lparr>JSON_parse = (\<lambda>s. if s = ''null'' then Some JNull else None),
              coerced_lt = (\<lambda>j c. Inr False)\<rparr>"
  have a: "JSON_parse ?rt (toString (Str ''max-age=86400'')) = None" by simp
  have b: "JSON_parse ?rt (toString (Str ''null'')) = Some JNull" by simp
  have A: "checkReportToConfiguration ?rt (Str ''max-age=86400'') Map.empty
             = mk_issue ''Report-To header contains invalid JSON'' Low"
    by (rule conjunct1 [OF mp [OF reporting_validators_never_throw
          [THEN conjunct2, THEN conjunct2, THEN conjunct2, THEN conjunct2, THEN conjunct1] a]])
  have B: "checkNelConfiguration ?rt (Str ''null'') Map.empty
             = mk_issue ''NEL header contains invalid JSON'' Low"
    by (rule conjunct2 [OF mp [OF reporting_validators_never_throw
          [THEN conjunct2, THEN conjunct2, THEN conjunct2, THEN conjunct2, THEN conjunct2,
           THEN conjunct1] b]])
  show ?thesis by (intro conjI) (rule A, rule B)
qed

text \<open>
  Claim C7 as stated fails for \<^verbatim>\<open>Expect-CT\<close>: neither value below is JSON, yet the first has
  no issue and the second a medium issue about \<^verbatim>\<open>max-age\<close>.
\<close>

theorem expect_ct_not_json_counterexample:
  "checkExpectCtConfiguration (Str ''max-age=86400, enforce'') Map.empty = no_issue
   \<and> checkExpectCtConfiguration (Str ''{'') Map.empty
       = mk_issue ''Expect-CT header missing max-age directive'' Medium"
  by (simp add: checkExpectCtConfiguration_def)

section \<open>The scoring engine\<close>

subsection \<open>Normalisation of header names\<close>

lemma normalize_lowered:
  "normalize hs
     = foldl (\<lambda>m kv. if fst kv = ''__proto__'' then m else m(fst kv \<mapsto> snd kv)) Map.empty
         (map (\<lambda>kv. (toLowerCase (fst kv), snd kv)) hs)"
  by (simp add: normalize_def foldl_map normalize_step_def [abs_def] cong: if_cong)

lemma registry_keys_lower:
  "list_all (\<lambda>e. toLowerCase (fst e) = fst e) (allHeaders rt)"
  by (simp add: allHeaders_def essentialHeaders_def advancedHeaders_def corsHeaders_def
        setCookieHeader_def toLowerCase_def lowerChar_def)

lemma dangerous_keys_lower:
  "list_all (\<lambda>e. toLowerCase (fst e) = fst e) dangerousHeadersTable"
  by (simp add: dangerousHeadersTable_def toLowerCase_def lowerChar_def)

text \<open>
  Claim C9. Two inputs whose entries differ only in the letter case of the header names
  give the same result (findings, score, grade and all other fields): every name is
  lowered before any lookup, and the keys of the registry and of the disclosure table are
  lower-case already.
\<close>

theorem header_names_case_insensitive:
  assumes "map (\<lambda>kv. (toLowerCase (fst kv), snd kv)) hs
             = map (\<lambda>kv. (toLowerCase (fst kv), snd kv)) hs'"
  shows "analyzeHeaders this u hs code = analyzeHeaders this u hs' code
         \<and> list_all (\<lambda>e. toLowerCase (fst e) = fst e) (allHeaders rt)
         \<and> list_all (\<lambda>e. toLowerCase (fst e) = fst e) dangerousHeadersTable"
proof -
  have "normalize hs = normalize hs'"
    using assms by (simp add: normalize_lowered)
  then have "analyzeHeaders this u hs code = analyzeHeaders this u hs' code"
    by (simp add: analyzeHeaders_def)
  then show ?thesis
    using registry_keys_lower [of rt] dangerous_keys_lower by simp
qed

subsection \<open>The loop over the registry\<close>

lemma push_finding_fields [simp]:
  "ls_findings (push_finding f st) = ls_findings st @ [f]"
  "earnedEssentialPoints (push_finding f st) = earnedEssentialPoints st"
  "earnedAdvancedPoints (push_finding f st) = earnedAdvancedPoints st"
  "earnedCorsPoints (push_finding f st) = earnedCorsPoints st"
  by (simp_all add: push_finding_def)

lemma add_points_findings [simp]: "ls_findings (add_points cat pts st) = ls_findings st"
  by (simp add: add_points_def)

lemma checkHeader_mono:
  "checkHeader m st e = Inr st' \<Longrightarrow> set (ls_findings st) \<subseteq> set (ls_findings st')"
  by (cases e)
     (auto simp: checkHeader_def Let_def split: if_splits prod.splits sum.splits option.splits)

lemma checkAll_mono:
  "checkAll m reg st = Inr st' \<Longrightarrow> set (ls_findings st) \<subseteq> set (ls_findings st')"
proof (induction reg arbitrary: st)
  case Nil
  then show ?case by simp
next
  case (Cons e es)
  then obtain st1 where s1: "checkHeader m st e = Inr st1" and s2: "checkAll m es st1 = Inr st'"
    by (auto split: sum.splits)
  from checkHeader_mono [OF s1] Cons.IH [OF s2] show ?case by blast
qed

lemma checkAll_member:
  "checkAll m reg st = Inr st' \<Longrightarrow> e \<in> set reg \<Longrightarrow>
     \<exists>st1 st2. checkHeader m st1 e = Inr st2 \<and> set (ls_findings st2) \<subseteq> set (ls_findings st')"
proof (induction reg arbitrary: st)
  case Nil
  then show ?case by simp
next
  case (Cons x xs)
  then obtain sx where s1: "checkHeader m st x = Inr sx" and s2: "checkAll m xs sx = Inr st'"
    by (auto split: sum.splits)
  show ?case
  proof (cases "e = x")
    case True
    with s1 checkAll_mono [OF s2] show ?thesis by blast
  next
    case False
    with Cons.prems have "e \<in> set xs" by simp
    from Cons.IH [OF s2 this] show ?thesis .
  qed
qed

lemma dangerous_part_mono: "set fs \<subseteq> set (fst (dangerous_part an m fs))"
  by (auto simp: dangerous_part_def Let_def split: option.splits)

lemma cookie_part_mono: "set fs \<subseteq> set (fst (cookie_part an m fs))"
  by (auto simp: cookie_part_def Let_def split: option.splits)

lemma analyzeHeaders_findings:
  assumes "analyzeHeaders this u hs code = Inr r"
  shows "\<exists>st. checkAll (normalize hs) (securityHeaders this)
                \<lparr>ls_findings = [], earnedEssentialPoints = 0, earnedAdvancedPoints = 0,
                 earnedCorsPoints = 0\<rparr> = Inr st
              \<and> set (ls_findings st) \<subseteq> set (findings r)"
proof -
  let ?st0 = "\<lparr>ls_findings = [], earnedEssentialPoints = 0, earnedAdvancedPoints = 0,
               earnedCorsPoints = 0\<rparr>"
  from assms obtain st where st: "checkAll (normalize hs) (securityHeaders this) ?st0 = Inr st"
    by (auto simp: analyzeHeaders_def Let_def split: sum.splits)
  with assms have "findings r
      = fst (cookie_part (analyzers this) (normalize hs)
               (fst (dangerous_part (analyzers this) (normalize hs) (ls_findings st))))"
    by (auto simp: analyzeHeaders_def Let_def)
  with dangerous_part_mono cookie_part_mono have "set (ls_findings st) \<subseteq> set (findings r)"
    by (metis subset_trans)
  with st show ?thesis by blast
qed

subsection \<open>Partial credit\<close>

lemma multiplier_values:
  "fl (8 / 10) = 3602879701896397 / 4503599627370496"
  "fl (6 / 10) = 5404319552844595 / 9007199254740992"
  "fl (3 / 10) = 5404319552844595 / 18014398509481984"
  "fl (1 / 10) = 3602879701896397 / 36028797018963968"
  by (simp_all add: fl_eval_defs Let_def)

lemma misconfiguration_multiplier:
  "num_or (misconfigurationPenalties config sev) (1 / 2)
     = (case sev of High \<Rightarrow> fl (8 / 10) | Medium \<Rightarrow> fl (6 / 10)
        | Low \<Rightarrow> fl (3 / 10) | Info \<Rightarrow> fl (1 / 10))"
  using multiplier_values by (cases sev) (simp_all add: config_def num_or_def)

lemma checkHeader_misconfigured:
  assumes "hdr \<noteq> ''cookieAnalyzer''" and "hdr \<noteq> ''dangerousHeaders''"
    and "m hdr = Some v" and "truthy v"
    and "checkConfiguration info = Some check" and "check v m = Inr (Some ci)"
    and "headerWeight_of hdr = (w, cat)"
    and "checkHeader m st (hdr, info) = Inr st'"
    and "sev = (case issue_criticalRating ci of Some s \<Rightarrow> s | None \<Rightarrow> info_criticalRating info)"
  shows "\<exists>f \<in> set (ls_findings st').
           header f = info_name info \<and> status f = Misconfigured \<and> fvalue f = Some v
           \<and> weight f = Some w \<and> criticalRating f = sev
           \<and> pointsEarned f
               = Some (js_sub w (js_mul w (case sev of High \<Rightarrow> fl (8 / 10)
                                            | Medium \<Rightarrow> fl (6 / 10) | Low \<Rightarrow> fl (3 / 10)
                                            | Info \<Rightarrow> fl (1 / 10))))"
proof -
  let ?e = "js_sub w (js_mul w (case sev of High \<Rightarrow> fl (8 / 10) | Medium \<Rightarrow> fl (6 / 10)
                                 | Low \<Rightarrow> fl (3 / 10) | Info \<Rightarrow> fl (1 / 10)))"
  from assms have "st' = add_points cat ?e
      (push_finding
         \<lparr>header = info_name info, status = Misconfigured, fvalue = Some v, description = None,
          finding_issue = Some (issue ci), criticalRating = sev, category = Some cat,
          weight = Some w, pointsEarned = Some ?e, cookie = None, issues = None\<rparr> st)"
    by (simp add: checkHeader_def present_def Let_def misconfiguration_multiplier)
  then show ?thesis by simp
qed

lemma checkHeader_present:
  assumes "hdr \<noteq> ''cookieAnalyzer''" and "hdr \<noteq> ''dangerousHeaders''"
    and "m hdr = Some v" and "truthy v"
    and "checkConfiguration info = None
         \<or> (\<exists>check. checkConfiguration info = Some check \<and> check v m = Inr None)"
    and "headerWeight_of hdr = (w, cat)"
  shows "checkHeader m st (hdr, info)
           = Inr (add_points cat w (push_finding
               \<lparr>header = info_name info, status = Present, fvalue = Some v, description = None,
                finding_issue = None, criticalRating = info_criticalRating info,
                category = Some cat, weight = Some w, pointsEarned = Some w, cookie = None,
                issues = None\<rparr> st))"
  using assms by (auto simp: checkHeader_def present_def Let_def)

text \<open>Every weight of the tables, and the fallback weight, lies between 0 and 15.\<close>

lemma headerWeight_range:
  assumes "headerWeight_of hdr = (w, cat)"
  shows "0 \<le> w \<and> w \<le> 15"
  using assms
  by (auto simp: headerWeight_of_def config_def split: if_splits)

text \<open>
  The three roundings of \<^verbatim>\<open>weight - weight * multiplier\<close> (of the literal, of the product, of
  the difference) move the result by less than \<open>2 powi (- 48)\<close>, about \<open>3.6e-15\<close>, away from
  the exact \<open>weight \<times> (1 - multiplier)\<close>.
\<close>

lemma partial_credit_error:
  assumes "0 \<le> w" and "w \<le> 15" and "0 \<le> d" and "d < 1"
  shows "\<bar>js_sub w (js_mul w (fl d)) - w * (1 - d)\<bar> \<le> 2 powi (- 48)"
proof -
  let ?m = "fl d"
  let ?p = "fl (w * ?m)"
  let ?q = "fl (w - ?p)"
  have e1: "\<bar>?m - d\<bar> \<le> 2 powi (- 54)"
    using fl_error [of d 0] assms by simp
  have m: "\<bar>?m\<bar> \<le> 1 + 2 powi (- 54)"
    using e1 assms by linarith
  have "\<bar>w * ?m\<bar> = w * \<bar>?m\<bar>" using assms(1) by (simp add: abs_mult)
  also have "\<dots> \<le> 15 * (1 + 2 powi (- 54))"
    using assms(1) assms(2) m by (intro mult_mono) simp_all
  finally have wm: "\<bar>w * ?m\<bar> \<le> 15 * (1 + 2 powi (- 54))" .
  then have "\<bar>w * ?m\<bar> < 2 powi 4" by simp
  then have e2: "\<bar>?p - w * ?m\<bar> \<le> 2 powi (- 50)"
    using fl_error [of "w * ?m" 4] by simp
  have small: "(2::rat) powi (- 50) \<le> 1 / 2" by simp
  have "\<bar>w * ?m\<bar> \<le> 16" using wm by simp
  then have "\<bar>w - ?p\<bar> < 32"
    using e2 small assms(1) assms(2) by linarith
  then have "\<bar>w - ?p\<bar> < 2 powi 5" by simp
  then have e3: "\<bar>?q - (w - ?p)\<bar> \<le> 2 powi (- 49)"
    using fl_error [of "w - ?p" 5] by simp
  have "\<bar>w * (?m - d)\<bar> = w * \<bar>?m - d\<bar>" using assms(1) by (simp add: abs_mult)
  also have "\<dots> \<le> 15 * 2 powi (- 54)"
    using assms(1) assms(2) e1 by (intro mult_mono) simp_all
  finally have e4: "\<bar>w * (?m - d)\<bar> \<le> 15 * 2 powi (- 54)" .
  have "?q - w * (1 - d) = (?q - (w - ?p)) - (?p - w * ?m) - w * (?m - d)"
    by (simp add: algebra_simps)
  then have "\<bar>?q - w * (1 - d)\<bar> \<le> 2 powi (- 49) + 2 powi (- 50) + 15 * 2 powi (- 54)"
    using e2 e3 e4 by linarith
  also have "\<dots> \<le> 2 powi (- 48)" by simp
  finally show ?thesis by (simp add: js_sub_def js_mul_def)
qed

text \<open>
  Claim C2, as the code has it. A registry header that is present (its value is truthy) and
  whose validator reports an issue of severity \<open>s\<close> (the issue's own rating, else the rating
  of the registry entry) gets a \<^verbatim>\<open>misconfigured\<close> finding whose \<^verbatim>\<open>pointsEarned\<close> is
  \<^verbatim>\<open>weight - weight * multiplier\<close> as doubles compute it: the multiplier is the double
  nearest to 0.8, 0.6, 0.3 or 0.1 (high, medium, low, info), the product is rounded, and so
  is the difference. That value lies within \<open>2 powi (- 48)\<close> of the exact
  \<open>weight \<times> (1 - multiplier)\<close>. When the validator reports no issue, or there is no
  validator, the finding is \<^verbatim>\<open>present\<close> and earns the full weight.
\<close>

theorem misconfigured_partial_credit:
  assumes "analyzeHeaders this u hs code = Inr r"
    and "(hdr, info) \<in> set (securityHeaders this)"
    and "hdr \<noteq> ''cookieAnalyzer''" and "hdr \<noteq> ''dangerousHeaders''"
    and "normalize hs hdr = Some v" and "truthy v"
    and "headerWeight_of hdr = (w, cat)"
  shows "(\<forall>check ci sev.
            checkConfiguration info = Some check \<and> check v (normalize hs) = Inr (Some ci)
            \<and> sev = (case issue_criticalRating ci of Some s \<Rightarrow> s
                      | None \<Rightarrow> info_criticalRating info) \<longrightarrow>
            (\<exists>f \<in> set (findings r).
               header f = info_name info \<and> status f = Misconfigured \<and> fvalue f = Some v
               \<and> weight f = Some w \<and> criticalRating f = sev
               \<and> pointsEarned f
                   = Some (js_sub w (js_mul w (case sev of High \<Rightarrow> fl (8 / 10)
                                                | Medium \<Rightarrow> fl (6 / 10) | Low \<Rightarrow> fl (3 / 10)
                                                | Info \<Rightarrow> fl (1 / 10))))
               \<and> (\<exists>p. pointsEarned f = Some p
                      \<and> \<bar>p - w * (1 - (case sev of High \<Rightarrow> 8 / 10 | Medium \<Rightarrow> 6 / 10
                                         | Low \<Rightarrow> 3 / 10 | Info \<Rightarrow> 1 / 10))\<bar>
                          \<le> 2 powi (- 48))))
       \<and> (checkConfiguration info = None
            \<or> (\<exists>check. checkConfiguration info = Some check
                  \<and> check v (normalize hs) = Inr None) \<longrightarrow>
            (\<exists>f \<in> set (findings r).
               header f = info_name info \<and> status f = Present \<and> fvalue f = Some v
               \<and> weight f = Some w \<and> pointsEarned f = Some w))"
proof -
  from analyzeHeaders_findings [OF assms(1)] obtain st where
    st: "checkAll (normalize hs) (securityHeaders this)
           \<lparr>ls_findings = [], earnedEssentialPoints = 0, earnedAdvancedPoints = 0,
            earnedCorsPoints = 0\<rparr> = Inr st"
    and sub: "set (ls_findings st) \<subseteq> set (findings r)"
    by blast
  from checkAll_member [OF st assms(2)] obtain st1 st2 where
    step: "checkHeader (normalize hs) st1 (hdr, info) = Inr st2"
    and sub2: "set (ls_findings st2) \<subseteq> set (ls_findings st)"
    by blast
  from headerWeight_range [OF assms(7)] have w0: "0 \<le> w" and w15: "w \<le> 15" by simp_all
  have near: "\<bar>js_sub w (js_mul w (case sev of High \<Rightarrow> fl (8 / 10) | Medium \<Rightarrow> fl (6 / 10)
                                       | Low \<Rightarrow> fl (3 / 10) | Info \<Rightarrow> fl (1 / 10)))
                - w * (1 - (case sev of High \<Rightarrow> 8 / 10 | Medium \<Rightarrow> 6 / 10
                              | Low \<Rightarrow> 3 / 10 | Info \<Rightarrow> 1 / 10))\<bar> \<le> 2 powi (- 48)"
    for sev
  proof (cases sev)
    case High
    from partial_credit_error [OF w0 w15, of "8 / 10"] show ?thesis by (simp add: High)
  next
    case Medium
    from partial_credit_error [OF w0 w15, of "6 / 10"] show ?thesis by (simp add: Medium)
  next
    case Low
    from partial_credit_error [OF w0 w15, of "3 / 10"] show ?thesis by (simp add: Low)
  next
    case Info
    from partial_credit_error [OF w0 w15, of "1 / 10"] show ?thesis by (simp add: Info)
  qed
  have part1: "\<exists>f \<in> set (findings r).
               header f = info_name info \<and> status f = Misconfigured \<and> fvalue f = Some v
               \<and> weight f = Some w \<and> criticalRating f = sev
               \<and> pointsEarned f
                   = Some (js_sub w (js_mul w (case sev of High \<Rightarrow> fl (8 / 10)
                                                | Medium \<Rightarrow> fl (6 / 10) | Low \<Rightarrow> fl (3 / 10)
                                                | Info \<Rightarrow> fl (1 / 10))))
               \<and> (\<exists>p. pointsEarned f = Some p
                      \<and> \<bar>p - w * (1 - (case sev of High \<Rightarrow> 8 / 10 | Medium \<Rightarrow> 6 / 10
                                         | Low \<Rightarrow> 3 / 10 | Info \<Rightarrow> 1 / 10))\<bar>
                          \<le> 2 powi (- 48))"
    if "checkConfiguration info = Some check" and "check v (normalize hs) = Inr (Some ci)"
      and "sev = (case issue_criticalRating ci of Some s \<Rightarrow> s | None \<Rightarrow> info_criticalRating info)"
    for check ci sev
  proof -
    from checkHeader_misconfigured [OF assms(3) assms(4) assms(5) assms(6) that(1) that(2)
            assms(7) step that(3)] obtain f where
      f: "f \<in> set (ls_findings st2)"
      and fields: "header f = info_name info \<and> status f = Misconfigured \<and> fvalue f = Some v
           \<and> weight f = Some w \<and> criticalRating f = sev"
      and pts: "pointsEarned f
               = Some (js_sub w (js_mul w (case sev of High \<Rightarrow> fl (8 / 10)
                                            | Medium \<Rightarrow> fl (6 / 10) | Low \<Rightarrow> fl (3 / 10)
                                            | Info \<Rightarrow> fl (1 / 10))))"
      by blast
    from f sub sub2 have "f \<in> set (findings r)" by blast
    with fields pts near [of sev] show ?thesis by blast
  qed
  have part2: "\<exists>f \<in> set (findings r).
               header f = info_name info \<and> status f = Present \<and> fvalue f = Some v
               \<and> weight f = Some w \<and> pointsEarned f = Some w"
    if "checkConfiguration info = None
          \<or> (\<exists>check. checkConfiguration info = Some check \<and> check v (normalize hs) = Inr None)"
  proof -
    from checkHeader_present [OF assms(3) assms(4) assms(5) assms(6) that assms(7), of st1] step
    have "\<exists>f \<in> set (ls_findings st2).
               header f = info_name info \<and> status f = Present \<and> fvalue f = Some v
               \<and> weight f = Some w \<and> pointsEarned f = Some w"
      by auto
    with sub sub2 show ?thesis by blast
  qed
  from part1 part2 show ?thesis by blast
qed

subsection \<open>The default checker returns on well-formed input\<close>

lemma issue_returns [simp]: "\<not> isl (mk_issue txt r)" "\<not> isl no_issue"
  by (simp_all add: mk_issue_def no_issue_def)

lemma try_catch_returns_isl: "\<not> isl handler \<Longrightarrow> \<not> isl (try_catch body handler)"
  by (cases body) (simp_all add: try_catch_def)

lemma str_method_Str [simp]: "str_method (Str s) f = f s"
  by (simp add: str_method_def)

lemma essential_validators_return:
  "\<not> isl (checkHstsConfiguration (Str s) m)"
  "\<not> isl (checkCspConfiguration v m)"
  "\<not> isl (checkXFrameOptionsConfiguration (Str s) m)"
  "\<not> isl (checkXssProtectionConfiguration v m)"
  "\<not> isl (checkReferrerPolicyConfiguration v m)"
  by (simp_all add: checkHstsConfiguration_def checkCspConfiguration_def
        checkXFrameOptionsConfiguration_def checkXssProtectionConfiguration_def
        checkReferrerPolicyConfiguration_def Let_def split: option.split)

lemma advanced_validators_return:
  "\<not> isl (checkExpectCtConfiguration v m)"
  "\<not> isl (checkReportToConfiguration rt v m)"
  "\<not> isl (checkNelConfiguration rt v m)"
  "\<not> isl (checkClearSiteDataConfiguration rt v m)"
  "\<not> isl (checkCoepConfiguration v m)"
  "\<not> isl (checkCoopConfiguration v m)"
  "\<not> isl (checkCorpConfiguration v m)"
  by (simp_all add: checkExpectCtConfiguration_def checkReportToConfiguration_def
        checkNelConfiguration_def checkClearSiteDataConfiguration_def checkCoepConfiguration_def
        checkCoopConfiguration_def checkCorpConfiguration_def try_catch_returns_isl)

lemma cors_validators_return:
  "\<not> isl (checkAccessControlAllowOriginConfiguration v m)"
  "\<not> isl (checkAccessControlAllowCredentialsConfiguration (Str s) m)"
  "\<not> isl (checkAccessControlAllowMethodsConfiguration (Str s) m)"
  "\<not> isl (checkAccessControlAllowHeadersConfiguration v m)"
  "\<not> isl (checkAccessControlExposeHeadersConfiguration (Str s) m)"
  "\<not> isl (checkAccessControlMaxAgeConfiguration v m)"
  by (simp_all add: checkAccessControlAllowOriginConfiguration_def
        checkAccessControlAllowCredentialsConfiguration_def
        checkAccessControlAllowMethodsConfiguration_def
        checkAccessControlAllowHeadersConfiguration_def
        checkAccessControlExposeHeadersConfiguration_def
        checkAccessControlMaxAgeConfiguration_def Let_def split: option.split)

lemma cookie_validator_returns: "\<not> isl (checkSetCookieConfiguration v m)"
  by (simp add: checkSetCookieConfiguration_def Let_def split: list.split)

lemma default_validators_return_all:
  "list_all (\<lambda>e. \<forall>check v. checkConfiguration (snd e) = Some check \<longrightarrow>
                 (fst e = ''set-cookie'' \<or> (\<exists>s. v = Str s)) \<longrightarrow> \<not> isl (check v m))
     (allHeaders rt)"
  apply (simp add: allHeaders_def essentialHeaders_def advancedHeaders_def corsHeaders_def
        setCookieHeader_def advanced_validators_return essential_validators_return
        cors_validators_return cookie_validator_returns)
  apply (intro conjI allI impI)
      apply (erule exE, simp add: essential_validators_return)
     apply (erule exE, simp add: essential_validators_return)
    apply (erule exE, simp add: cors_validators_return)
   apply (erule exE, simp add: cors_validators_return)
  apply (erule exE, simp add: cors_validators_return)
  done

lemma default_validators_return:
  assumes "(hdr, info) \<in> set (allHeaders rt)" and "checkConfiguration info = Some check"
    and "hdr = ''set-cookie'' \<or> (\<exists>s. v = Str s)"
  shows "\<not> isl (check v m)"
  using default_validators_return_all [of m rt] assms
  unfolding list_all_iff by fastforce

lemma normalize_arrays_aux:
  assumes "\<forall>k xs. acc k = Some (Arr xs) \<longrightarrow> k = ''set-cookie''" and "wf_headers hs"
  shows "\<forall>k xs. foldl normalize_step acc hs k = Some (Arr xs) \<longrightarrow> k = ''set-cookie''"
  using assms
proof (induction hs arbitrary: acc)
  case Nil
  then show ?case by simp
next
  case (Cons kv hs)
  have a: "\<forall>k xs. normalize_step acc kv k = Some (Arr xs) \<longrightarrow> k = ''set-cookie''"
    using Cons.prems by (auto simp: wf_headers_def normalize_step_def split: hval.splits)
  have b: "wf_headers hs" using Cons.prems(2) by (simp add: wf_headers_def)
  from Cons.IH [OF a b] show ?case by simp
qed

lemma normalize_arrays:
  "wf_headers hs \<Longrightarrow> normalize hs k = Some (Arr xs) \<Longrightarrow> k = ''set-cookie''"
  using normalize_arrays_aux [of Map.empty hs] by (simp add: normalize_def)

lemma checkHeader_returns:
  assumes "\<forall>check v. checkConfiguration info = Some check \<longrightarrow> m hdr = Some v
             \<longrightarrow> \<not> isl (check v m)"
  shows "\<not> isl (checkHeader m st (hdr, info))"
  using assms
  by (auto simp: checkHeader_def Let_def present_def
           split: prod.splits option.splits sum.splits)

lemma checkAll_returns:
  "(\<And>e st. e \<in> set reg \<Longrightarrow> \<not> isl (checkHeader m st e)) \<Longrightarrow> \<not> isl (checkAll m reg st)"
proof (induction reg arbitrary: st)
  case Nil
  then show ?case by simp
next
  case (Cons e es)
  have "\<not> isl (checkHeader m st e)" using Cons.prems by simp
  then obtain st1 where "checkHeader m st e = Inr st1" by (cases "checkHeader m st e") auto
  moreover have "\<not> isl (checkAll m es st1)" using Cons.IH Cons.prems by simp
  ultimately show ?case by simp
qed

lemma default_checker_returns:
  assumes "wf_headers hs"
  shows "\<exists>r. analyzeHeaders (createDefaultChecker rt) u hs code = Inr r"
proof -
  let ?m = "normalize hs"
  let ?st0 = "\<lparr>ls_findings = [], earnedEssentialPoints = 0, earnedAdvancedPoints = 0,
               earnedCorsPoints = 0\<rparr>"
  have step: "\<not> isl (checkHeader ?m st e)" if "e \<in> set (allHeaders rt)" for e st
  proof -
    obtain hdr info where e: "e = (hdr, info)" by (cases e)
    have "\<not> isl (check v ?m)"
      if c: "checkConfiguration info = Some check" and v: "?m hdr = Some v" for check v
    proof -
      have "hdr = ''set-cookie'' \<or> (\<exists>s. v = Str s)"
        using normalize_arrays [OF assms, of hdr] v by (cases v) auto
      with default_validators_return [of hdr info rt check v ?m] c \<open>e \<in> set (allHeaders rt)\<close> e
      show ?thesis by simp
    qed
    then have "\<forall>check v. checkConfiguration info = Some check \<longrightarrow> ?m hdr = Some v
                 \<longrightarrow> \<not> isl (check v ?m)"
      by blast
    then show ?thesis unfolding e by (rule checkHeader_returns)
  qed
  have "\<not> isl (checkAll ?m (allHeaders rt) ?st0)"
    by (rule checkAll_returns) (rule step)
  then obtain st where "checkAll ?m (allHeaders rt) ?st0 = Inr st"
    by (cases "checkAll ?m (allHeaders rt) ?st0") auto
  then show ?thesis
    by (simp add: analyzeHeaders_def createDefaultChecker_def Let_def)
qed

lemma score_clamped:
  assumes "analyzeHeaders this u hs code = Inr r"
  shows "score r \<in> \<int> \<and> 0 \<le> score r \<and> score r \<le> 100"
proof -
  from assms obtain raw where "score r = max 0 (min 100 (Math_round raw))"
    by (auto simp: analyzeHeaders_def Let_def split: sum.splits)
  moreover have "max 0 (min 100 (Math_round raw)) \<in> \<int>"
    by (simp add: Math_round_def max_def min_def)
  ultimately show ?thesis by simp
qed

text \<open>
  Claim C3. For every well-formed input (only \<^verbatim>\<open>Set-Cookie\<close> may carry an array of values)
  \<^verbatim>\<open>analyzeHeaders\<close> of the default checker returns, and the score it returns is an integer
  between 0 and 100: the rounded sum is clamped, whatever the weighted arithmetic and the
  penalties give.
\<close>

theorem score_is_integer_between_0_and_100:
  assumes "wf_headers hs"
  shows "\<exists>r. analyzeHeaders (createDefaultChecker rt) u hs code = Inr r
             \<and> score r \<in> \<int> \<and> 0 \<le> score r \<and> score r \<le> 100"
proof -
  from default_checker_returns [OF assms] obtain r where
    r: "analyzeHeaders (createDefaultChecker rt) u hs code = Inr r" by blast
  from score_clamped [OF r] r show ?thesis by blast
qed

subsection \<open>Full credit\<close>

lemma checkAll_append:
  "checkAll m (xs @ ys) st
     = (case checkAll m xs st of Inl err \<Rightarrow> Inl err | Inr st' \<Rightarrow> checkAll m ys st')"
  by (induction xs arbitrary: st) (simp_all split: sum.splits)

lemma add_points_earned:
  "earnedEssentialPoints (add_points cat w st)
     = (if cat = Essential then js_add (earnedEssentialPoints st) w else earnedEssentialPoints st)"
  "earnedAdvancedPoints (add_points cat w st)
     = (if cat = Advanced then js_add (earnedAdvancedPoints st) w else earnedAdvancedPoints st)"
  "earnedCorsPoints (add_points cat w st)
     = (if cat = Cors then js_add (earnedCorsPoints st) w else earnedCorsPoints st)"
  by (simp_all add: add_points_def)

lemma checkHeader_full_credit:
  assumes "configured_ok m (hdr, info)"
    and "hdr \<noteq> ''cookieAnalyzer''" and "hdr \<noteq> ''dangerousHeaders''"
  shows "\<exists>st'. checkHeader m st (hdr, info) = Inr st'
           \<and> earnedEssentialPoints st'
               = cat_total Essential [(hdr, info)] (earnedEssentialPoints st)
           \<and> earnedAdvancedPoints st'
               = cat_total Advanced [(hdr, info)] (earnedAdvancedPoints st)
           \<and> earnedCorsPoints st' = cat_total Cors [(hdr, info)] (earnedCorsPoints st)"
proof -
  obtain w cat where hw: "headerWeight_of hdr = (w, cat)" by (cases "headerWeight_of hdr")
  from assms(1) obtain v where v: "m hdr = Some v" and t: "truthy v"
    by (auto simp: configured_ok_def present_def split: option.splits)
  from assms(1) v have ok: "checkConfiguration info = None
      \<or> (\<exists>check. checkConfiguration info = Some check \<and> check v m = Inr None)"
    by (auto simp: configured_ok_def split: option.splits)
  show ?thesis
    unfolding checkHeader_present [OF assms(2) assms(3) v t ok hw]
    by (simp add: add_points_earned cat_total_def hw)
qed

lemma cat_total_Cons:
  "cat_total cat (e # es) a = cat_total cat es (cat_total cat [e] a)"
  by (simp add: cat_total_def)

lemma checkAll_full_credit:
  assumes "list_all (configured_ok m) reg"
    and "list_all (\<lambda>e. fst e \<noteq> ''cookieAnalyzer'' \<and> fst e \<noteq> ''dangerousHeaders'') reg"
  shows "\<exists>st'. checkAll m reg st = Inr st'
           \<and> earnedEssentialPoints st' = cat_total Essential reg (earnedEssentialPoints st)
           \<and> earnedAdvancedPoints st' = cat_total Advanced reg (earnedAdvancedPoints st)
           \<and> earnedCorsPoints st' = cat_total Cors reg (earnedCorsPoints st)"
  using assms
proof (induction reg arbitrary: st)
  case Nil
  then show ?case by (simp add: cat_total_def)
next
  case (Cons e es)
  obtain hdr info where e: "e = (hdr, info)" by (cases e)
  from Cons.prems e have c: "configured_ok m (hdr, info)"
    and n1: "hdr \<noteq> ''cookieAnalyzer''" and n2: "hdr \<noteq> ''dangerousHeaders''"
    by simp_all
  from checkHeader_full_credit [OF c n1 n2, of st] obtain st1 where
    s1: "checkHeader m st (hdr, info) = Inr st1"
    and e1: "earnedEssentialPoints st1
               = cat_total Essential [(hdr, info)] (earnedEssentialPoints st)"
    and a1: "earnedAdvancedPoints st1
               = cat_total Advanced [(hdr, info)] (earnedAdvancedPoints st)"
    and c1: "earnedCorsPoints st1 = cat_total Cors [(hdr, info)] (earnedCorsPoints st)"
    by blast
  from Cons.prems have p1: "list_all (configured_ok m) es"
    and p2: "list_all (\<lambda>e. fst e \<noteq> ''cookieAnalyzer'' \<and> fst e \<noteq> ''dangerousHeaders'') es"
    by simp_all
  from Cons.IH [OF p1 p2, of st1] obtain st2 where
    s2: "checkAll m es st1 = Inr st2"
    and e2: "earnedEssentialPoints st2 = cat_total Essential es (earnedEssentialPoints st1)"
    and a2: "earnedAdvancedPoints st2 = cat_total Advanced es (earnedAdvancedPoints st1)"
    and c2: "earnedCorsPoints st2 = cat_total Cors es (earnedCorsPoints st1)"
    by blast
  have "checkAll m (e # es) st = Inr st2" using s1 s2 e by simp
  moreover have "earnedEssentialPoints st2
      = cat_total Essential (e # es) (earnedEssentialPoints st)"
    unfolding e2 e1 e by (rule cat_total_Cons [symmetric])
  moreover have "earnedAdvancedPoints st2
      = cat_total Advanced (e # es) (earnedAdvancedPoints st)"
    unfolding a2 a1 e by (rule cat_total_Cons [symmetric])
  moreover have "earnedCorsPoints st2 = cat_total Cors (e # es) (earnedCorsPoints st)"
    unfolding c2 c1 e by (rule cat_total_Cons [symmetric])
  ultimately show ?case by blast
qed

lemma checkHeader_other:
  assumes "snd (headerWeight_of hdr) = Other" and "checkHeader m st (hdr, info) = Inr st'"
  shows "earnedEssentialPoints st' = earnedEssentialPoints st
         \<and> earnedAdvancedPoints st' = earnedAdvancedPoints st
         \<and> earnedCorsPoints st' = earnedCorsPoints st"
  using assms
  by (auto simp: checkHeader_def Let_def add_points_def
           split: if_splits prod.splits sum.splits option.splits)

lemma scored_keys_not_analyzers:
  "list_all (\<lambda>e. fst e \<noteq> ''cookieAnalyzer'' \<and> fst e \<noteq> ''dangerousHeaders'')
     (essentialHeaders @ advancedHeaders rt @ corsHeaders)"
  by (simp add: essentialHeaders_def advancedHeaders_def corsHeaders_def)

lemma scored_totals:
  "cat_total Essential (essentialHeaders @ advancedHeaders rt @ corsHeaders) 0 = 75"
  "cat_total Advanced (essentialHeaders @ advancedHeaders rt @ corsHeaders) 0 = 25"
  "cat_total Cors (essentialHeaders @ advancedHeaders rt @ corsHeaders) 0 = 15"
  by (simp_all add: cat_total_def essentialHeaders_def advancedHeaders_def corsHeaders_def
        headerWeight_of_def config_def fl_eval_defs Let_def)

lemma config_totals:
  "totalPoints (essentialHeaderWeights config) 60 = 75"
  "totalPoints (advancedHeaderWeights config) 25 = 25"
  "totalPoints (corsHeaderWeights config) 15 = 15"
  by (simp_all add: totalPoints_def config_def num_or_def fl_eval_defs Let_def)

lemma set_cookie_other: "snd (headerWeight_of ''set-cookie'') = Other"
  by (simp add: headerWeight_of_def config_def)

lemma default_loop_full_credit:
  assumes "list_all (configured_ok m) (essentialHeaders @ advancedHeaders rt @ corsHeaders)"
  shows "\<exists>st. checkAll m (allHeaders rt)
                 \<lparr>ls_findings = [], earnedEssentialPoints = 0, earnedAdvancedPoints = 0,
                  earnedCorsPoints = 0\<rparr> = Inr st
              \<and> earnedEssentialPoints st = 75 \<and> earnedAdvancedPoints st = 25
              \<and> earnedCorsPoints st = 15"
proof -
  let ?st0 = "\<lparr>ls_findings = [], earnedEssentialPoints = 0, earnedAdvancedPoints = 0,
               earnedCorsPoints = 0\<rparr>"
  let ?scored = "essentialHeaders @ advancedHeaders rt @ corsHeaders"
  from checkAll_full_credit [OF assms scored_keys_not_analyzers, of ?st0] obtain st1 where
    s1: "checkAll m ?scored ?st0 = Inr st1"
    and e1: "earnedEssentialPoints st1 = 75" and a1: "earnedAdvancedPoints st1 = 25"
    and c1: "earnedCorsPoints st1 = 15"
    by (auto simp: scored_totals)
  have "\<not> isl (checkHeader m st1 (''set-cookie'', snd (hd setCookieHeader)))"
    by (rule checkHeader_returns) (simp add: setCookieHeader_def cookie_validator_returns)
  then obtain st2 where
    s2: "checkHeader m st1 (''set-cookie'', snd (hd setCookieHeader)) = Inr st2"
    by (cases "checkHeader m st1 (''set-cookie'', snd (hd setCookieHeader))") auto
  from checkHeader_other [OF set_cookie_other s2] e1 a1 c1
  have pts: "earnedEssentialPoints st2 = 75 \<and> earnedAdvancedPoints st2 = 25
             \<and> earnedCorsPoints st2 = 15"
    by simp
  have cookie_list: "setCookieHeader = [(''set-cookie'', snd (hd setCookieHeader))]"
    by (simp add: setCookieHeader_def)
  have all: "allHeaders rt = ?scored @ [(''set-cookie'', snd (hd setCookieHeader))]"
    using cookie_list by (simp add: allHeaders_def)
  have "checkAll m (?scored @ [(''set-cookie'', snd (hd setCookieHeader))]) ?st0
          = (case checkAll m ?scored ?st0 of
               Inl err \<Rightarrow> Inl err
             | Inr st' \<Rightarrow> checkAll m [(''set-cookie'', snd (hd setCookieHeader))] st')"
    by (rule checkAll_append)
  also have "\<dots> = Inr st2"
    by (simp add: s1 s2)
  finally have "checkAll m (allHeaders rt) ?st0 = Inr st2"
    by (simp only: all)
  with pts show ?thesis by blast
qed

text \<open>
  Claim C8. When every essential, advanced and CORS entry of the registry is present with
  no issue from its validator, the disclosure analyzer has no findings, and the cookie
  analyzer has none either (or there is no \<^verbatim>\<open>Set-Cookie\<close>), the score is exactly 100.
\<close>

theorem fully_configured_scores_100:
  assumes "list_all (configured_ok (normalize hs))
             (essentialHeaders @ advancedHeaders rt @ corsHeaders)"
    and "analysis_findings (checkDangerousHeaders (normalize hs)) = []"
    and "\<not> present (normalize hs) ''set-cookie''
         \<or> (\<exists>v. normalize hs ''set-cookie'' = Some v \<and> analysis_findings (cookieAnalyzer v) = [])"
  shows "\<exists>r. analyzeHeaders (createDefaultChecker rt) u hs code = Inr r \<and> score r = 100"
proof -
  let ?m = "normalize hs"
  from default_loop_full_credit [OF assms(1)] obtain st where
    st: "checkAll ?m (allHeaders rt)
           \<lparr>ls_findings = [], earnedEssentialPoints = 0, earnedAdvancedPoints = 0,
            earnedCorsPoints = 0\<rparr> = Inr st"
    and pts: "earnedEssentialPoints st = 75" "earnedAdvancedPoints st = 25"
             "earnedCorsPoints st = 15"
    by blast
  have d: "dangerous_part defaultAnalyzers ?m fs = (fs, 0)" for fs
    using assms(2) by (simp add: dangerous_part_def defaultAnalyzers_def)
  have c: "cookie_part defaultAnalyzers ?m fs = (fs, 0)" for fs
    using assms(3)
    by (auto simp: cookie_part_def defaultAnalyzers_def present_def split: option.splits)
  have "Math_round
          (js_sub (js_sub (js_add (js_add (js_mul (js_div 75 75) 60) (js_mul (js_div 25 25) 25))
                             (js_mul (js_div 15 15) 15)) 0) 0) = 100"
    by (simp add: Math_round_def fl_eval_defs Let_def)
  then have "score_of (analyzeHeaders (createDefaultChecker rt) u hs code) = Some 100"
    by (simp add: analyzeHeaders_def createDefaultChecker_def Let_def st pts d c
          config_totals score_of_def)
  then show ?thesis
    by (cases "analyzeHeaders (createDefaultChecker rt) u hs code")
       (simp_all add: score_of_def)
qed

subsection \<open>The sample responses\<close>

lemmas registry_defs = allHeaders_def essentialHeaders_def advancedHeaders_def corsHeaders_def
  setCookieHeader_def

lemmas sample_defs = sample_runtime_def sample_report_to_def sample_nel_def
  sample_clear_site_data_def quoted_def dquote_def squote_def

lemmas validator_defs = checkHstsConfiguration_def checkCspConfiguration_def
  checkXFrameOptionsConfiguration_def checkXssProtectionConfiguration_def
  checkReferrerPolicyConfiguration_def checkExpectCtConfiguration_def
  checkReportToConfiguration_def reportTo_body_def checkNelConfiguration_def nel_body_def
  checkClearSiteDataConfiguration_def clearSiteData_body_def checkCoepConfiguration_def
  checkCoopConfiguration_def checkCorpConfiguration_def
  checkAccessControlAllowOriginConfiguration_def
  checkAccessControlAllowCredentialsConfiguration_def
  checkAccessControlAllowMethodsConfiguration_def
  checkAccessControlAllowHeadersConfiguration_def
  checkAccessControlExposeHeadersConfiguration_def checkAccessControlMaxAgeConfiguration_def
  js_not_def short_max_age_def parseInt_def

lemma sample_hardened_configured:
  "list_all (configured_ok (normalize sample_hardened))
     (essentialHeaders @ advancedHeaders sample_runtime @ corsHeaders)"
  by (simp add: sample_hardened_def normalize_def normalize_step_def configured_ok_def present_def registry_defs
        validator_defs sample_defs issue_defs char_defs Let_def)

lemma sample_hardened_discloses_nothing:
  "analysis_findings (checkDangerousHeaders (normalize sample_hardened)) = []"
  by (simp add: sample_hardened_def normalize_def normalize_step_def checkDangerousHeaders_def
        dangerousHeadersTable_def dangerous_step_def version_step_def present_def
        sample_defs char_defs Let_def)

lemma sample_hardened_no_cookie: "\<not> present (normalize sample_hardened) ''set-cookie''"
  by (simp add: sample_hardened_def normalize_def normalize_step_def present_def sample_defs char_defs)

lemma sample_weak_wf: "wf_headers sample_weak"
  by (simp add: sample_weak_def wf_headers_def char_defs)

lemma sample_weak_lookup:
  "normalize sample_weak ''strict-transport-security'' = Some (Str ''max-age=1000'')"
  "normalize sample_weak ''x-content-type-options'' = Some (Str ''nosniff'')"
  by (simp_all add: sample_weak_def normalize_def normalize_step_def char_defs)

lemma sample_weak_scores:
  "score_of (analyzeHeaders (createDefaultChecker sample_runtime) ''https://example.org''
               sample_weak 200) = Some 12"
  "dangerous_penalty_of (analyzeHeaders (createDefaultChecker sample_runtime)
               ''https://example.org'' sample_weak 200) = Some 1"
  by (simp_all add: analyzeHeaders_def createDefaultChecker_def defaultAnalyzers_def
        sample_weak_def normalize_def normalize_step_def registry_defs checkHeader_def headerWeight_of_def
        present_def push_finding_def add_points_def validator_defs
        checkSetCookieConfiguration_def setCookie_step_def cookie_quoted_def
        sensitiveKeywords_def cookie_defs
        dangerous_part_def cookie_part_def checkDangerousHeaders_def dangerousHeadersTable_def
        dangerous_step_def version_step_def dangerous_finding_def dangerousFindingPenalty_def
        cookieFindingPenalty_def cookieIssuePenalty_def defaultPenalties_def
        totalPoints_def num_or_def config_def Math_round_def fl_eval_defs
        score_of_def dangerous_penalty_of_def sample_defs issue_defs char_defs Let_def)

lemma sample_weak_adjustment:
  "scoreAdjustment (checkDangerousHeaders (normalize sample_weak)) = 0"
  by (simp add: sample_weak_def normalize_def normalize_step_def checkDangerousHeaders_def
        dangerousHeadersTable_def dangerous_step_def version_step_def present_def
        dangerous_finding_def fl_eval_defs char_defs Let_def)

lemmas engine_defs = analyzeHeaders_def createDefaultChecker_def defaultAnalyzers_def
  normalize_def normalize_step_def registry_defs checkHeader_def headerWeight_of_def
  present_def push_finding_def add_points_def validator_defs
  checkSetCookieConfiguration_def setCookie_step_def cookie_quoted_def
  sensitiveKeywords_def cookie_defs
  dangerous_part_def cookie_part_def checkDangerousHeaders_def dangerousHeadersTable_def
  dangerous_step_def version_step_def dangerous_finding_def dangerousFindingPenalty_def
  cookieFindingPenalty_def cookieIssuePenalty_def defaultPenalties_def
  totalPoints_def num_or_def config_def Math_round_def fl_eval_defs
  sample_defs issue_defs char_defs Let_def

lemma sample_misconfigured_findings:
  "finding_of (analyzeHeaders (createDefaultChecker sample_runtime) ''https://example.org''
                 sample_misconfigured 200) ''Access-Control-Allow-Credentials''
     = Some \<lparr>header = ''Access-Control-Allow-Credentials'', status = Misconfigured,
             fvalue = Some (Str ''true''), description = None,
             finding_issue =
               Some ''Access-Control-Allow-Credentials is true while Allow-Origin is wildcard'',
             criticalRating = High, category = Some Cors, weight = Some 4,
             pointsEarned = Some (900719925474099 / 1125899906842624), cookie = None,
             issues = None\<rparr>"
  "finding_of (analyzeHeaders (createDefaultChecker sample_runtime) ''https://example.org''
                 sample_misconfigured 200) ''Strict-Transport-Security (HSTS)''
     = Some \<lparr>header = ''Strict-Transport-Security (HSTS)'', status = Misconfigured,
             fvalue = Some (Str ''preload''), description = None,
             finding_issue = Some ''HSTS header missing max-age directive'',
             criticalRating = High, category = Some Essential, weight = Some 15,
             pointsEarned = Some 3, cookie = None, issues = None\<rparr>"
  by (simp_all add: engine_defs sample_misconfigured_def finding_of_def)


subsection \<open>Witnesses on the sample responses\<close>

theorem header_names_case_insensitive_witness:
  "analyzeHeaders (createDefaultChecker sample_runtime) ''https://example.org''
     [(''Server'', Str ''nginx''), (''X-Frame-Options'', Str ''DENY'')] 200
   = analyzeHeaders (createDefaultChecker sample_runtime) ''https://example.org''
     [(''SERVER'', Str ''nginx''), (''x-frame-options'', Str ''DENY'')] 200"
proof -
  have h: "map (\<lambda>kv. (toLowerCase (fst kv), snd kv))
             [(''Server'', Str ''nginx''), (''X-Frame-Options'', Str ''DENY'')]
           = map (\<lambda>kv. (toLowerCase (fst kv), snd kv))
             [(''SERVER'', Str ''nginx''), (''x-frame-options'', Str ''DENY'')]"
    by (simp add: char_defs)
  show ?thesis
    by (rule conjunct1 [OF header_names_case_insensitive [OF h]])
qed

theorem score_is_integer_between_0_and_100_witness:
  "\<exists>r. analyzeHeaders (createDefaultChecker sample_runtime) ''https://example.org''
          sample_weak 200 = Inr r
        \<and> score r \<in> \<int> \<and> 0 \<le> score r \<and> score r \<le> 100"
  by (rule score_is_integer_between_0_and_100 [OF sample_weak_wf])

theorem fully_configured_scores_100_witness:
  "\<exists>r. analyzeHeaders (createDefaultChecker sample_runtime) ''https://example.org''
          sample_hardened 200 = Inr r
        \<and> score r = 100"
proof -
  have h3: "\<not> present (normalize sample_hardened) ''set-cookie''
            \<or> (\<exists>v. normalize sample_hardened ''set-cookie'' = Some v
                    \<and> analysis_findings (cookieAnalyzer v) = [])"
    using sample_hardened_no_cookie by simp
  show ?thesis
    by (rule fully_configured_scores_100
          [OF sample_hardened_configured sample_hardened_discloses_nothing h3])
qed

theorem misconfigured_partial_credit_witness:
  "\<exists>r. analyzeHeaders (createDefaultChecker sample_runtime) ''https://example.org''
          sample_weak 200 = Inr r
        \<and> (\<exists>f \<in> set (findings r).
              header f = ''Strict-Transport-Security (HSTS)'' \<and> status f = Misconfigured
              \<and> criticalRating f = Medium \<and> weight f = Some 15 \<and> pointsEarned f = Some 6)
        \<and> (\<exists>f \<in> set (findings r).
              header f = ''X-Content-Type-Options'' \<and> status f = Present
              \<and> weight f = Some 10 \<and> pointsEarned f = Some 10)"
proof -
  let ?hsts = "\<lparr>info_name = ''Strict-Transport-Security (HSTS)'',
                info_description = ''Forces browsers to use HTTPS for the domain'',
                info_criticalRating = High, checkConfiguration = Some checkHstsConfiguration\<rparr>"
  let ?xcto = "\<lparr>info_name = ''X-Content-Type-Options'',
                info_description = ''Prevents MIME-sniffing attacks'',
                info_criticalRating = Medium, checkConfiguration = None\<rparr>"
  let ?issue = "\<lparr>issue = ''HSTS max-age is less than 1 year'',
                 issue_criticalRating = Some Medium\<rparr>"
  from default_checker_returns [OF sample_weak_wf] obtain r where
    r: "analyzeHeaders (createDefaultChecker sample_runtime) ''https://example.org''
          sample_weak 200 = Inr r"
    by blast
  have m1: "(''strict-transport-security'', ?hsts)
              \<in> set (securityHeaders (createDefaultChecker sample_runtime))"
    by (simp add: createDefaultChecker_def registry_defs)
  have m2: "(''x-content-type-options'', ?xcto)
              \<in> set (securityHeaders (createDefaultChecker sample_runtime))"
    by (simp add: createDefaultChecker_def registry_defs)
  have n1: "''strict-transport-security'' \<noteq> ''cookieAnalyzer''"
    and n2: "''strict-transport-security'' \<noteq> ''dangerousHeaders''"
    and n3: "''x-content-type-options'' \<noteq> ''cookieAnalyzer''"
    and n4: "''x-content-type-options'' \<noteq> ''dangerousHeaders''"
    by simp_all
  have t1: "truthy (Str ''max-age=1000'')" and t2: "truthy (Str ''nosniff'')"
    by simp_all
  have w1: "headerWeight_of ''strict-transport-security'' = (15, Essential)"
    and w2: "headerWeight_of ''x-content-type-options'' = (10, Essential)"
    by (simp_all add: headerWeight_of_def config_def)
  have c1: "checkConfiguration ?hsts = Some checkHstsConfiguration
            \<and> checkHstsConfiguration (Str ''max-age=1000'') (normalize sample_weak)
                = Inr (Some ?issue)
            \<and> Medium = (case issue_criticalRating ?issue of Some s \<Rightarrow> s
                          | None \<Rightarrow> info_criticalRating ?hsts)"
    by (simp add: checkHstsConfiguration_def issue_defs parseInt_def char_defs Let_def)
  have c2: "checkConfiguration ?xcto = None
            \<or> (\<exists>check. checkConfiguration ?xcto = Some check
                  \<and> check (Str ''nosniff'') (normalize sample_weak) = Inr None)"
    by simp
  have v6: "js_sub 15 (js_mul 15 (fl (6 / 10))) = 6" "js_sub 15 (js_mul 15 (fl (3 / 5))) = 6"
    by (simp_all add: fl_eval_defs Let_def)
  note hsts = misconfigured_partial_credit
                [OF r m1 n1 n2 sample_weak_lookup(1) t1 w1, THEN conjunct1]
  note xcto = misconfigured_partial_credit
                [OF r m2 n3 n4 sample_weak_lookup(2) t2 w2, THEN conjunct2]
  from mp [OF spec [OF spec [OF spec [OF hsts]]] c1]
  have f1: "\<exists>f \<in> set (findings r).
              header f = ''Strict-Transport-Security (HSTS)'' \<and> status f = Misconfigured
              \<and> criticalRating f = Medium \<and> weight f = Some 15 \<and> pointsEarned f = Some 6"
    by (auto simp: v6)
  from mp [OF xcto c2] have f2: "\<exists>f \<in> set (findings r).
              header f = ''X-Content-Type-Options'' \<and> status f = Present
              \<and> weight f = Some 10 \<and> pointsEarned f = Some 10"
    by auto
  from r f1 f2 show ?thesis by blast
qed

text \<open>
  Claim C2 as stated fails. With \<^verbatim>\<open>Access-Control-Allow-Credentials: true\<close> beside a wildcard
  origin (weight 4, issue of severity high) the finding stores
  \<open>900719925474099 / 2 powi 50 = 0.79999999999999982...\<close>, which is neither the exact
  \<open>4 \<times> (1 - 0.8) = 4/5\<close> nor the double nearest to it. With an HSTS value without
  \<^verbatim>\<open>max-age\<close> (weight 15, severity high) the finding stores 3, whereas the formula
  \<open>15 \<times> (1 - 0.8)\<close> evaluated in doubles gives \<open>2.9999999999999991...\<close>.
\<close>

theorem partial_credit_formula_counterexample:
  "finding_of (analyzeHeaders (createDefaultChecker sample_runtime) ''https://example.org''
                 sample_misconfigured 200) ''Access-Control-Allow-Credentials''
     = Some \<lparr>header = ''Access-Control-Allow-Credentials'', status = Misconfigured,
             fvalue = Some (Str ''true''), description = None,
             finding_issue =
               Some ''Access-Control-Allow-Credentials is true while Allow-Origin is wildcard'',
             criticalRating = High, category = Some Cors, weight = Some 4,
             pointsEarned = Some (900719925474099 / 1125899906842624), cookie = None,
             issues = None\<rparr>
   \<and> (900719925474099 / 1125899906842624 :: rat) \<noteq> 4 * (1 - 8 / 10)
   \<and> (900719925474099 / 1125899906842624 :: rat) \<noteq> fl (4 * (1 - 8 / 10))
   \<and> finding_of (analyzeHeaders (createDefaultChecker sample_runtime) ''https://example.org''
                 sample_misconfigured 200) ''Strict-Transport-Security (HSTS)''
     = Some \<lparr>header = ''Strict-Transport-Security (HSTS)'', status = Misconfigured,
             fvalue = Some (Str ''preload''), description = None,
             finding_issue = Some ''HSTS header missing max-age directive'',
             criticalRating = High, category = Some Essential, weight = Some 15,
             pointsEarned = Some 3, cookie = None, issues = None\<rparr>
   \<and> js_mul 15 (js_sub 1 (fl (8 / 10))) \<noteq> 3"
  apply (intro conjI)
  subgoal by (rule sample_misconfigured_findings(1))
  subgoal by simp
  subgoal by (simp add: fl_eval_defs Let_def)
  subgoal by (rule sample_misconfigured_findings(2))
  subgoal by (simp add: fl_eval_defs Let_def)
  done

subsection \<open>The disclosure penalty\<close>

text \<open>Integers and halves below \<open>2 powi 53\<close> are doubles: rounding leaves them as they are.\<close>

lemma fl_int: "\<bar>k\<bar> < 2 ^ 53 \<Longrightarrow> fl (of_int k) = of_int k"
  using fl_exact [of "of_int k" k 0] by simp

lemma fl_half:
  assumes "\<bar>k\<bar> < 2 ^ 53"
  shows "fl (of_int k / 2) = of_int k / 2"
proof -
  have x: "(of_int k :: rat) / 2 = of_int k * 2 powi (- 1)" by simp
  have j: "- 1074 \<le> (- 1 :: int)" by simp
  show ?thesis by (rule fl_exact [OF x assms j])
qed

text \<open>A sum of at most \<open>2 powi 49\<close> amounts that are halves between 0 and 4 is exact.\<close>

lemma foldl_js_add_halves:
  assumes "\<forall>f \<in> set fs. \<exists>k. g f = of_int k / 2 \<and> 0 \<le> k \<and> k \<le> 8"
    and "a = of_int j / 2" and "0 \<le> j" and "j + 8 * int (length fs) < 2 ^ 53"
  shows "foldl (\<lambda>p f. js_add p (g f)) a fs = a + sum_list (map g fs)"
  using assms
proof (induction fs arbitrary: a j)
  case Nil
  then show ?case by simp
next
  case (Cons f fs)
  from Cons.prems(1) obtain k where k: "g f = of_int k / 2" and k0: "0 \<le> k" and k8: "k \<le> 8"
    by auto
  have s: "a + g f = of_int (j + k) / 2"
    using Cons.prems(2) k by (simp add: add_divide_distrib)
  have "\<bar>j + k\<bar> < 2 ^ 53"
    using Cons.prems(3) Cons.prems(4) k0 k8 by simp
  then have "fl (of_int (j + k) / 2) = of_int (j + k) / 2"
    by (rule fl_half)
  then have e: "js_add a (g f) = of_int (j + k) / 2"
    by (simp only: js_add_def s)
  have e': "js_add a (g f) = a + g f"
    by (simp only: e s)
  have rest: "\<forall>f \<in> set fs. \<exists>k. g f = of_int k / 2 \<and> 0 \<le> k \<and> k \<le> 8"
    using Cons.prems(1) by simp
  have nonneg: "0 \<le> j + k" using Cons.prems(3) k0 by simp
  have bound: "j + k + 8 * int (length fs) < 2 ^ 53"
    using Cons.prems(4) k8 by simp
  have "foldl (\<lambda>p f. js_add p (g f)) a (f # fs)
          = foldl (\<lambda>p f. js_add p (g f)) (js_add a (g f)) fs"
    by simp
  also have "\<dots> = js_add a (g f) + sum_list (map g fs)"
    by (rule Cons.IH [OF rest e nonneg bound])
  also have "\<dots> = a + sum_list (map g (f # fs))"
    by (simp add: e')
  finally show ?case .
qed

lemma dangerousFindingPenalty_table:
  "dangerousFindingPenalty f
     = (case criticalRating f of High \<Rightarrow> 4 | Medium \<Rightarrow> 2 | Low \<Rightarrow> 1 | Info \<Rightarrow> 1 / 2)"
  by (cases "criticalRating f")
     (simp_all add: dangerousFindingPenalty_def config_def num_or_def)

lemma dangerousFindingPenalty_half:
  "\<exists>k. dangerousFindingPenalty f = of_int k / 2 \<and> 0 \<le> k \<and> k \<le> 8"
  by (rule exI [of _ "case criticalRating f of High \<Rightarrow> 8 | Medium \<Rightarrow> 4 | Low \<Rightarrow> 2
                        | Info \<Rightarrow> 1"])
     (cases "criticalRating f"; simp add: dangerousFindingPenalty_table)

text \<open>The disclosure analyzer has at most 21 findings: one per table entry and two more.\<close>

lemma dangerous_step_length:
  "length (analysis_findings (dangerous_step hs acc e)) \<le> Suc (length (analysis_findings acc))"
  by (cases e) (simp add: dangerous_step_def)

lemma dangerous_loop_length:
  "length (analysis_findings (foldl (dangerous_step hs) acc tbl))
     \<le> length (analysis_findings acc) + length tbl"
proof (induction tbl arbitrary: acc)
  case Nil
  then show ?case by simp
next
  case (Cons e tbl)
  have "length (analysis_findings (foldl (dangerous_step hs) (dangerous_step hs acc e) tbl))
          \<le> length (analysis_findings (dangerous_step hs acc e)) + length tbl"
    by (rule Cons.IH)
  with dangerous_step_length [of hs acc e] show ?case by simp
qed

lemma version_step_length:
  "length (analysis_findings (version_step hs hdr nm descr acc))
     \<le> Suc (length (analysis_findings acc))"
  by (simp add: version_step_def)

lemma dangerous_table_length: "length dangerousHeadersTable = 19"
  by (simp add: dangerousHeadersTable_def)

lemma dangerous_table_loop_length:
  "length (analysis_findings
     (foldl (dangerous_step hs) \<lparr>analysis_findings = [], scoreAdjustment = 0\<rparr>
        dangerousHeadersTable)) \<le> 19"
  using dangerous_loop_length
          [of hs "\<lparr>analysis_findings = [], scoreAdjustment = 0\<rparr>" dangerousHeadersTable]
  by (simp add: dangerous_table_length)

lemma checkDangerousHeaders_length:
  "length (analysis_findings (checkDangerousHeaders hs)) \<le> 21"
proof -
  let ?a1 = "foldl (dangerous_step hs) \<lparr>analysis_findings = [], scoreAdjustment = 0\<rparr>
               dangerousHeadersTable"
  let ?a2 = "version_step hs ''server'' ''Server''
               ''Server header contains version information'' ?a1"
  let ?a3 = "version_step hs ''x-powered-by'' ''X-Powered-By''
               ''X-Powered-By header contains version information'' ?a2"
  have "length (analysis_findings ?a3) \<le> Suc (length (analysis_findings ?a2))"
    by (rule version_step_length)
  moreover have "length (analysis_findings ?a2) \<le> Suc (length (analysis_findings ?a1))"
    by (rule version_step_length)
  moreover note dangerous_table_loop_length [of hs]
  ultimately have "length (analysis_findings ?a3) \<le> 21" by linarith
  then show ?thesis by (simp add: checkDangerousHeaders_def Let_def)
qed

lemma dangerous_part_default:
  "snd (dangerous_part defaultAnalyzers m fs)
     = min (sum_list (map (\<lambda>f. case criticalRating f of High \<Rightarrow> 4 | Medium \<Rightarrow> 2
                                 | Low \<Rightarrow> 1 | Info \<Rightarrow> 1 / 2)
                        (analysis_findings (checkDangerousHeaders m)))) 10"
proof -
  let ?fs = "analysis_findings (checkDangerousHeaders m)"
  have halves: "\<forall>f \<in> set ?fs. \<exists>k. dangerousFindingPenalty f = of_int k / 2 \<and> 0 \<le> k \<and> k \<le> 8"
    using dangerousFindingPenalty_half by blast
  have zero: "(0::rat) = of_int 0 / 2" by simp
  have bound: "0 + 8 * int (length ?fs) < 2 ^ 53"
    using checkDangerousHeaders_length [of m] by simp
  have "foldl (\<lambda>p f. js_add p (dangerousFindingPenalty f)) 0 ?fs
          = 0 + sum_list (map dangerousFindingPenalty ?fs)"
    by (rule foldl_js_add_halves [OF halves zero order_refl bound])
  moreover have "dangerousFindingPenalty
          = (\<lambda>f. case criticalRating f of High \<Rightarrow> 4 | Medium \<Rightarrow> 2 | Low \<Rightarrow> 1
                  | Info \<Rightarrow> 1 / 2)"
    by (rule ext) (rule dangerousFindingPenalty_table)
  ultimately have fold: "foldl (\<lambda>p f. js_add p (dangerousFindingPenalty f)) 0 ?fs
          = sum_list (map (\<lambda>f. case criticalRating f of High \<Rightarrow> 4 | Medium \<Rightarrow> 2
                                 | Low \<Rightarrow> 1 | Info \<Rightarrow> 1 / 2) ?fs)"
    by simp
  show ?thesis
    by (simp add: dangerous_part_def defaultAnalyzers_def Let_def fold config_def num_or_def)
qed

text \<open>
  The analyzer's own \<^verbatim>\<open>scoreAdjustment\<close>: its subtractions of 3, 2, 1 and 0 are exact as
  well.
\<close>

lemma disclosure_points_int:
  "\<exists>k. disclosure_points r = of_int k \<and> 0 \<le> k \<and> k \<le> 3"
  by (rule exI [of _ "case r of High \<Rightarrow> 3 | Medium \<Rightarrow> 2 | Low \<Rightarrow> 1 | Info \<Rightarrow> 0"])
     (cases r; simp)

lemma disclosure_sum_int:
  "\<exists>K. sum_list (map (\<lambda>f. disclosure_points (criticalRating f)) fs) = of_int K
        \<and> 0 \<le> K \<and> K \<le> 3 * int (length fs)"
proof (induction fs)
  case Nil
  show ?case by simp
next
  case (Cons f fs)
  from Cons.IH obtain K where
    K: "sum_list (map (\<lambda>f. disclosure_points (criticalRating f)) fs) = of_int K"
    and K0: "0 \<le> K" and K3: "K \<le> 3 * int (length fs)"
    by blast
  from disclosure_points_int [of "criticalRating f"] obtain k where
    k: "disclosure_points (criticalRating f) = of_int k" and k0: "0 \<le> k" and k3: "k \<le> 3"
    by blast
  have "sum_list (map (\<lambda>f. disclosure_points (criticalRating f)) (f # fs)) = of_int (k + K)"
    by (simp add: K k)
  moreover have "0 \<le> k + K" using K0 k0 by simp
  moreover have "k + K \<le> 3 * int (length (f # fs))" using K3 k3 by simp
  ultimately show ?case by blast
qed

lemma adjustment_step:
  assumes "adj = - sum_list (map (\<lambda>f. disclosure_points (criticalRating f)) fs)"
    and "length fs \<le> 30"
    and "p = of_int k" and "0 \<le> k" and "k \<le> 3"
  shows "js_sub adj p = - (sum_list (map (\<lambda>f. disclosure_points (criticalRating f)) fs) + p)"
proof -
  from disclosure_sum_int [of fs] obtain K where
    K: "sum_list (map (\<lambda>f. disclosure_points (criticalRating f)) fs) = of_int K"
    and K0: "0 \<le> K" and K3: "K \<le> 3 * int (length fs)"
    by blast
  have d: "adj - p = of_int (- K - k)"
    by (simp add: assms(1) assms(3) K)
  have "\<bar>- K - k\<bar> < 2 ^ 53"
    using K0 K3 assms(2) assms(4) assms(5) by simp
  then have "fl (of_int (- K - k)) = of_int (- K - k)" by (rule fl_int)
  then have "js_sub adj p = of_int (- K - k)"
    by (simp only: js_sub_def d)
  then show ?thesis by (simp add: K assms(3))
qed

lemma dangerous_step_adjustment:
  assumes "scoreAdjustment acc
             = - sum_list (map (\<lambda>f. disclosure_points (criticalRating f)) (analysis_findings acc))"
    and "length (analysis_findings acc) \<le> 30"
  shows "scoreAdjustment (dangerous_step hs acc e)
           = - sum_list (map (\<lambda>f. disclosure_points (criticalRating f))
                           (analysis_findings (dangerous_step hs acc e)))"
proof -
  obtain hdr nm descr r where e: "e = (hdr, nm, descr, r)" by (cases e)
  from disclosure_points_int [of r] obtain k where
    k: "disclosure_points r = of_int k" and k0: "0 \<le> k" and k3: "k \<le> 3"
    by blast
  from adjustment_step [OF assms(1) assms(2) k k0 k3] assms(1)
  show ?thesis
    by (simp add: dangerous_step_def dangerous_finding_def e)
qed

lemma dangerous_loop_adjustment:
  assumes "scoreAdjustment acc
             = - sum_list (map (\<lambda>f. disclosure_points (criticalRating f)) (analysis_findings acc))"
    and "length (analysis_findings acc) + length tbl \<le> 30"
  shows "scoreAdjustment (foldl (dangerous_step hs) acc tbl)
           = - sum_list (map (\<lambda>f. disclosure_points (criticalRating f))
                           (analysis_findings (foldl (dangerous_step hs) acc tbl)))"
  using assms
proof (induction tbl arbitrary: acc)
  case Nil
  then show ?case by simp
next
  case (Cons e tbl)
  have len: "length (analysis_findings acc) \<le> 30" using Cons.prems(2) by simp
  have inv: "scoreAdjustment (dangerous_step hs acc e)
           = - sum_list (map (\<lambda>f. disclosure_points (criticalRating f))
                           (analysis_findings (dangerous_step hs acc e)))"
    by (rule dangerous_step_adjustment [OF Cons.prems(1) len])
  have len': "length (analysis_findings (dangerous_step hs acc e)) + length tbl \<le> 30"
    using dangerous_step_length [of hs acc e] Cons.prems(2) by simp
  from Cons.IH [OF inv len'] show ?case by simp
qed

lemma version_step_adjustment:
  assumes "scoreAdjustment acc
             = - sum_list (map (\<lambda>f. disclosure_points (criticalRating f)) (analysis_findings acc))"
    and "length (analysis_findings acc) \<le> 30"
  shows "scoreAdjustment (version_step hs hdr nm descr acc)
           = - sum_list (map (\<lambda>f. disclosure_points (criticalRating f))
                           (analysis_findings (version_step hs hdr nm descr acc)))"
proof -
  have two: "(2::rat) = of_int 2" by simp
  from adjustment_step [OF assms(1) assms(2) two] assms(1)
  show ?thesis
    by (simp add: version_step_def dangerous_finding_def)
qed

lemma checkDangerousHeaders_adjustment:
  "scoreAdjustment (checkDangerousHeaders hs)
     = - sum_list (map (\<lambda>f. disclosure_points (criticalRating f))
                     (analysis_findings (checkDangerousHeaders hs)))"
proof -
  let ?a0 = "\<lparr>analysis_findings = [], scoreAdjustment = 0\<rparr>"
  let ?a1 = "foldl (dangerous_step hs) ?a0 dangerousHeadersTable"
  let ?a2 = "version_step hs ''server'' ''Server''
               ''Server header contains version information'' ?a1"
  have i0: "scoreAdjustment ?a0
              = - sum_list (map (\<lambda>f. disclosure_points (criticalRating f))
                              (analysis_findings ?a0))"
    by simp
  have l0: "length (analysis_findings ?a0) + length dangerousHeadersTable \<le> 30"
    by (simp add: dangerous_table_length)
  note i1 = dangerous_loop_adjustment [OF i0 l0, of hs]
  have l1: "length (analysis_findings ?a1) \<le> 30"
    using dangerous_table_loop_length [of hs] by simp
  note i2 = version_step_adjustment
              [OF i1 l1, of hs "''server''" "''Server''"
                 "''Server header contains version information''"]
  have l2: "length (analysis_findings ?a2) \<le> 30"
    using version_step_length
            [of hs "''server''" "''Server''" "''Server header contains version information''" ?a1]
          dangerous_table_loop_length [of hs]
    by linarith
  note i3 = version_step_adjustment
              [OF i2 l2, of hs "''x-powered-by''" "''X-Powered-By''"
                 "''X-Powered-By header contains version information''"]
  then show ?thesis by (simp only: checkDangerousHeaders_def Let_def)
qed

lemma analyzeHeaders_score:
  assumes "analyzeHeaders this u hs code = Inr r"
  shows "score r
           = max 0 (min 100 (Math_round
               (js_sub (js_sub (js_add (js_add (weighted (essential (scoreBreakdown r)))
                                          (weighted (advanced (scoreBreakdown r))))
                                  (weighted (cors (scoreBreakdown r))))
                          (dangerous (penalties (scoreBreakdown r))))
                  (cookies (penalties (scoreBreakdown r))))))"
  using assms by (auto simp: analyzeHeaders_def Let_def split: sum.splits)

lemma analyzeHeaders_dangerous_penalty:
  assumes "analyzeHeaders this u hs code = Inr r"
  shows "dangerous (penalties (scoreBreakdown r))
           = snd (dangerous_part (analyzers this) (normalize hs)
                    (ls_findings (projr (checkAll (normalize hs) (securityHeaders this)
                       \<lparr>ls_findings = [], earnedEssentialPoints = 0, earnedAdvancedPoints = 0,
                        earnedCorsPoints = 0\<rparr>))))"
  using assms by (auto simp: analyzeHeaders_def Let_def split: sum.splits)

text \<open>
  Claim C1, as the code has it. For every well-formed input the default checker returns a
  result. The disclosure analyzer does accumulate a \<^verbatim>\<open>scoreAdjustment\<close> of 3, 2, 1 and 0
  points per high, medium, low and info finding, but \<^verbatim>\<open>analyzeHeaders\<close> never reads it. The penalty it subtracts is the sum over the disclosure
  findings of the configured table (high 4, medium 2, low 1, info 0.5), capped at the
  configured maximum of 10; the score is the clamped, rounded weighted sum minus this
  penalty and the cookie penalty.
\<close>

theorem disclosure_penalty_from_config_table:
  assumes "wf_headers hs"
  shows "\<exists>r. analyzeHeaders (createDefaultChecker rt) u hs code = Inr r
         \<and> dangerous (penalties (scoreBreakdown r))
           = min (sum_list (map (\<lambda>f. case criticalRating f of High \<Rightarrow> 4 | Medium \<Rightarrow> 2
                                       | Low \<Rightarrow> 1 | Info \<Rightarrow> 1 / 2)
                              (analysis_findings (checkDangerousHeaders (normalize hs))))) 10
         \<and> dangerous (penalties (scoreBreakdown r)) \<le> maxDangerousHeadersPenalty config
         \<and> maxDangerousHeadersPenalty config = 10
         \<and> scoreAdjustment (checkDangerousHeaders (normalize hs))
             = - sum_list (map (\<lambda>f. disclosure_points (criticalRating f))
                             (analysis_findings (checkDangerousHeaders (normalize hs))))
         \<and> score r
             = max 0 (min 100 (Math_round
                 (js_sub (js_sub (js_add (js_add (weighted (essential (scoreBreakdown r)))
                                            (weighted (advanced (scoreBreakdown r))))
                                    (weighted (cors (scoreBreakdown r))))
                            (dangerous (penalties (scoreBreakdown r))))
                    (cookies (penalties (scoreBreakdown r))))))"
proof -
  from default_checker_returns [OF assms] obtain r where
    r: "analyzeHeaders (createDefaultChecker rt) u hs code = Inr r"
    by blast
  have p: "dangerous (penalties (scoreBreakdown r))
           = min (sum_list (map (\<lambda>f. case criticalRating f of High \<Rightarrow> 4 | Medium \<Rightarrow> 2
                                       | Low \<Rightarrow> 1 | Info \<Rightarrow> 1 / 2)
                              (analysis_findings (checkDangerousHeaders (normalize hs))))) 10"
    unfolding analyzeHeaders_dangerous_penalty [OF r]
    by (simp add: createDefaultChecker_def dangerous_part_default)
  have c: "maxDangerousHeadersPenalty config = 10" by (simp add: config_def)
  have le: "dangerous (penalties (scoreBreakdown r)) \<le> maxDangerousHeadersPenalty config"
    unfolding p c by simp
  from r p le c checkDangerousHeaders_adjustment [of "normalize hs"] analyzeHeaders_score [OF r]
  show ?thesis by (intro exI [of _ r] conjI)
qed

theorem disclosure_penalty_from_config_table_witness:
  "\<exists>r. analyzeHeaders (createDefaultChecker sample_runtime) ''https://example.org''
          sample_weak 200 = Inr r
         \<and> dangerous (penalties (scoreBreakdown r))
           = min (sum_list (map (\<lambda>f. case criticalRating f of High \<Rightarrow> 4 | Medium \<Rightarrow> 2
                                       | Low \<Rightarrow> 1 | Info \<Rightarrow> 1 / 2)
                     (analysis_findings (checkDangerousHeaders (normalize sample_weak))))) 10
         \<and> dangerous (penalties (scoreBreakdown r)) \<le> maxDangerousHeadersPenalty config
         \<and> maxDangerousHeadersPenalty config = 10
         \<and> scoreAdjustment (checkDangerousHeaders (normalize sample_weak))
             = - sum_list (map (\<lambda>f. disclosure_points (criticalRating f))
                     (analysis_findings (checkDangerousHeaders (normalize sample_weak))))
         \<and> score r
             = max 0 (min 100 (Math_round
                 (js_sub (js_sub (js_add (js_add (weighted (essential (scoreBreakdown r)))
                                            (weighted (advanced (scoreBreakdown r))))
                                    (weighted (cors (scoreBreakdown r))))
                            (dangerous (penalties (scoreBreakdown r))))
                    (cookies (penalties (scoreBreakdown r))))))"
  by (rule disclosure_penalty_from_config_table [OF sample_weak_wf])

text \<open>
  Claim C1 as stated fails: for a response with the two info-rated banners \<^verbatim>\<open>Via\<close> and
  \<^verbatim>\<open>X-Cache\<close> the analyzer's own adjustment is 0, yet the penalty subtracted is 1, and the
  score is 12 where a penalty of 0 would give 13.
\<close>

theorem disclosure_penalty_counterexample:
  "scoreAdjustment (checkDangerousHeaders (normalize sample_weak)) = 0
   \<and> dangerous_penalty_of (analyzeHeaders (createDefaultChecker sample_runtime)
        ''https://example.org'' sample_weak 200) = Some 1
   \<and> score_of (analyzeHeaders (createDefaultChecker sample_runtime)
        ''https://example.org'' sample_weak 200) = Some 12
   \<and> dangerous_penalty_of (analyzeHeaders (createDefaultChecker sample_runtime)
        ''https://example.org'' sample_weak 200)
       \<noteq> Some (min (- scoreAdjustment (checkDangerousHeaders (normalize sample_weak))) 10)"
  by (simp add: sample_weak_adjustment sample_weak_scores)

subsection \<open>Empty values\<close>

lemma present_drop:
  "m k = Some (Str []) \<Longrightarrow> present (m(k := None)) h = present m h"
  by (simp add: present_def)

lemma lookup_drop:
  "m k = Some (Str []) \<Longrightarrow> present m h \<Longrightarrow> (m(k := None)) h = m h"
  by (auto simp: present_def)

lemma credentials_drop:
  assumes "m k = Some (Str [])"
  shows "checkAccessControlAllowCredentialsConfiguration v (m(k := None))
           = checkAccessControlAllowCredentialsConfiguration v m"
  using assms
  by (cases v; cases "k = ''access-control-allow-origin''")
     (simp_all add: checkAccessControlAllowCredentialsConfiguration_def str_method_def Let_def)

lemma validators_ignore_headers:
  "checkHstsConfiguration v m' = checkHstsConfiguration v m"
  "checkCspConfiguration v m' = checkCspConfiguration v m"
  "checkXFrameOptionsConfiguration v m' = checkXFrameOptionsConfiguration v m"
  "checkXssProtectionConfiguration v m' = checkXssProtectionConfiguration v m"
  "checkReferrerPolicyConfiguration v m' = checkReferrerPolicyConfiguration v m"
  "checkExpectCtConfiguration v m' = checkExpectCtConfiguration v m"
  "checkReportToConfiguration rt v m' = checkReportToConfiguration rt v m"
  "checkNelConfiguration rt v m' = checkNelConfiguration rt v m"
  "checkClearSiteDataConfiguration rt v m' = checkClearSiteDataConfiguration rt v m"
  "checkCoepConfiguration v m' = checkCoepConfiguration v m"
  "checkCoopConfiguration v m' = checkCoopConfiguration v m"
  "checkCorpConfiguration v m' = checkCorpConfiguration v m"
  "checkAccessControlAllowOriginConfiguration v m'
     = checkAccessControlAllowOriginConfiguration v m"
  "checkAccessControlAllowMethodsConfiguration v m'
     = checkAccessControlAllowMethodsConfiguration v m"
  "checkAccessControlAllowHeadersConfiguration v m'
     = checkAccessControlAllowHeadersConfiguration v m"
  "checkAccessControlExposeHeadersConfiguration v m'
     = checkAccessControlExposeHeadersConfiguration v m"
  "checkAccessControlMaxAgeConfiguration v m' = checkAccessControlMaxAgeConfiguration v m"
  "checkSetCookieConfiguration v m' = checkSetCookieConfiguration v m"
  by (simp_all only: checkHstsConfiguration_def checkCspConfiguration_def
        checkXFrameOptionsConfiguration_def checkXssProtectionConfiguration_def
        checkReferrerPolicyConfiguration_def checkExpectCtConfiguration_def
        checkReportToConfiguration_def checkNelConfiguration_def
        checkClearSiteDataConfiguration_def checkCoepConfiguration_def
        checkCoopConfiguration_def checkCorpConfiguration_def
        checkAccessControlAllowOriginConfiguration_def
        checkAccessControlAllowMethodsConfiguration_def
        checkAccessControlAllowHeadersConfiguration_def
        checkAccessControlExposeHeadersConfiguration_def
        checkAccessControlMaxAgeConfiguration_def checkSetCookieConfiguration_def)

lemma default_validators_drop:
  assumes "m k = Some (Str [])"
  shows "list_all (\<lambda>e. \<forall>check v. checkConfiguration (snd e) = Some check \<longrightarrow>
                    check v (m(k := None)) = check v m) (allHeaders rt)"
  by (simp add: registry_defs credentials_drop [of m k, OF assms]
        validators_ignore_headers [where m' = "m(k := None)" and m = m])

lemma checkHeader_drop:
  assumes "m k = Some (Str [])"
    and "\<forall>check v. checkConfiguration info = Some check \<longrightarrow> check v (m(k := None)) = check v m"
  shows "checkHeader (m(k := None)) st (hdr, info) = checkHeader m st (hdr, info)"
proof (cases "present m hdr")
  case True
  then obtain v where v: "m hdr = Some v" and t: "truthy v"
    by (auto simp: present_def split: option.splits)
  have ne: "hdr \<noteq> k"
    using True assms(1) by (auto simp: present_def)
  have e1: "(m(k := None)) hdr = Some v"
    using ne v by simp
  have e2: "present (m(k := None)) hdr"
    using present_drop [of m k hdr, OF assms(1)] True by simp
  show ?thesis
  proof (cases "checkConfiguration info")
    case None
    then show ?thesis
      by (simp add: checkHeader_def True ne e2 v Let_def split: prod.splits)
  next
    case (Some check)
    have e3: "check v (m(k := None)) = check v m"
      using assms(2) Some by simp
    show ?thesis
      by (simp add: checkHeader_def True ne e2 e3 v Some Let_def
               split: prod.splits sum.splits option.splits)
  qed
next
  case False
  with present_drop [of m k hdr, OF assms(1)] show ?thesis
    by (simp add: checkHeader_def Let_def split: prod.splits)
qed

lemma checkAll_cong:
  "(\<And>e st. e \<in> set reg \<Longrightarrow> checkHeader m' st e = checkHeader m st e)
     \<Longrightarrow> checkAll m' reg st = checkAll m reg st"
  by (induction reg arbitrary: st) (simp_all split: sum.splits)

lemma default_loop_drop:
  assumes "m k = Some (Str [])"
  shows "checkAll (m(k := None)) (allHeaders rt) st = checkAll m (allHeaders rt) st"
proof (rule checkAll_cong)
  fix e st
  assume mem: "e \<in> set (allHeaders rt)"
  obtain hdr info where e: "e = (hdr, info)" by (cases e)
  from default_validators_drop [of m k rt, OF assms] mem e
  have "\<forall>check v. checkConfiguration info = Some check \<longrightarrow> check v (m(k := None)) = check v m"
    unfolding list_all_iff by fastforce
  from checkHeader_drop [of m k, OF assms this] e
  show "checkHeader (m(k := None)) st e = checkHeader m st e" by simp
qed

lemma dangerous_step_drop:
  assumes "m k = Some (Str [])"
  shows "dangerous_step (m(k := None)) = dangerous_step m"
proof (intro ext)
  fix acc :: analysis and e :: "string \<times> string \<times> string \<times> rating"
  obtain hdr nm descr r where e: "e = (hdr, nm, descr, r)" by (cases e)
  show "dangerous_step (m(k := None)) acc e = dangerous_step m acc e"
    using present_drop [of m k hdr, OF assms] lookup_drop [of m k hdr, OF assms]
    by (cases "present m hdr") (simp_all add: dangerous_step_def e)
qed

lemma version_step_drop:
  assumes "m k = Some (Str [])"
  shows "version_step (m(k := None)) hdr nm descr acc = version_step m hdr nm descr acc"
  using present_drop [of m k hdr, OF assms] lookup_drop [of m k hdr, OF assms]
  by (cases "present m hdr") (simp_all add: version_step_def)

lemma checkDangerousHeaders_drop:
  assumes "m k = Some (Str [])"
  shows "checkDangerousHeaders (m(k := None)) = checkDangerousHeaders m"
  by (simp add: checkDangerousHeaders_def dangerous_step_drop [of m k, OF assms]
        version_step_drop [of m k, OF assms])

lemma dangerous_part_drop:
  assumes "m k = Some (Str [])"
  shows "dangerous_part defaultAnalyzers (m(k := None)) fs = dangerous_part defaultAnalyzers m fs"
  by (simp add: dangerous_part_def defaultAnalyzers_def checkDangerousHeaders_drop [of m k, OF assms])

lemma cookie_part_drop:
  assumes "m k = Some (Str [])"
  shows "cookie_part defaultAnalyzers (m(k := None)) fs = cookie_part defaultAnalyzers m fs"
  using assms
  by (cases "k = ''set-cookie''") (simp_all add: cookie_part_def defaultAnalyzers_def)

lemma normalize_step_drop:
  "toLowerCase (fst kv) = k \<Longrightarrow> (normalize_step acc kv)(k := None) = acc(k := None)"
  "toLowerCase (fst kv) \<noteq> k \<Longrightarrow>
     normalize_step (acc(k := None)) kv = (normalize_step acc kv)(k := None)"
  by (simp_all add: normalize_step_def fun_upd_twist)

lemma normalize_filter_aux:
  "foldl normalize_step (acc(k := None)) (filter (\<lambda>kv. toLowerCase (fst kv) \<noteq> k) hs)
   = (foldl normalize_step acc hs)(k := None)"
proof (induction hs arbitrary: acc)
  case Nil
  then show ?case by simp
next
  case (Cons kv hs)
  let ?P = "\<lambda>kv. toLowerCase (fst kv) \<noteq> k"
  let ?acc' = "normalize_step acc kv"
  have step: "foldl normalize_step (acc(k := None)) (filter ?P (kv # hs))
                = foldl normalize_step (?acc'(k := None)) (filter ?P hs)"
  proof (cases "toLowerCase (fst kv) = k")
    case True
    from normalize_step_drop(1) [OF True, of acc] True show ?thesis
      by (simp only: filter.simps if_False simp_thms)
  next
    case False
    from normalize_step_drop(2) [OF False, of acc] False show ?thesis
      by (simp only: filter.simps if_True foldl.simps simp_thms)
  qed
  also have "\<dots> = (foldl normalize_step ?acc' hs)(k := None)"
    by (rule Cons.IH)
  also have "\<dots> = (foldl normalize_step acc (kv # hs))(k := None)"
    by (simp only: foldl.simps)
  finally show ?case .
qed

lemma normalize_filter:
  "normalize (filter (\<lambda>kv. toLowerCase (fst kv) \<noteq> k) hs) = (normalize hs)(k := None)"
  using normalize_filter_aux [of Map.empty k hs] by (simp add: normalize_def)

lemma analyzeHeaders_drop:
  assumes "normalize hs k = Some (Str [])"
  shows "analyzeHeaders (createDefaultChecker rt) u
           (filter (\<lambda>kv. toLowerCase (fst kv) \<noteq> k) hs) code
         = map_sum id (\<lambda>r. r\<lparr>headers := (headers r)(k := None)\<rparr>)
             (analyzeHeaders (createDefaultChecker rt) u hs code)"
  by (simp add: analyzeHeaders_def createDefaultChecker_def Let_def normalize_filter
        default_loop_drop [of "normalize hs" k, OF assms] dangerous_part_drop [of "normalize hs" k, OF assms]
        cookie_part_drop [of "normalize hs" k, OF assms]
      split: sum.splits)

lemma checkHeader_missing:
  assumes "\<not> present m hdr" and "hdr \<noteq> ''cookieAnalyzer''" and "hdr \<noteq> ''dangerousHeaders''"
  shows "checkHeader m st (hdr, info)
           = Inr (push_finding
               \<lparr>header = info_name info, status = Missing, fvalue = None,
                description = Some (info_description info), finding_issue = None,
                criticalRating = info_criticalRating info,
                category = Some (snd (headerWeight_of hdr)),
                weight = Some (fst (headerWeight_of hdr)), pointsEarned = None,
                cookie = None, issues = None\<rparr> st)"
  using assms by (simp add: checkHeader_def Let_def split: prod.splits)

text \<open>
  Claim C10. A registry header whose value is the empty string (the only falsy value a
  header can have) is classified as missing: whatever validator the entry has, the loop
  pushes a \<^verbatim>\<open>missing\<close> finding that earns no points and leaves the earned totals as they
  were, and the validator is not consulted. The result of the default checker is the one it
  gives when the header is removed from the input, apart from the echoed header map.
\<close>

theorem empty_value_counts_as_missing:
  assumes "normalize hs k = Some (Str [])"
  shows "(k \<noteq> ''cookieAnalyzer'' \<and> k \<noteq> ''dangerousHeaders'' \<longrightarrow>
            checkHeader (normalize hs) st (k, info)
              = Inr (push_finding
                  \<lparr>header = info_name info, status = Missing, fvalue = None,
                   description = Some (info_description info), finding_issue = None,
                   criticalRating = info_criticalRating info,
                   category = Some (snd (headerWeight_of k)),
                   weight = Some (fst (headerWeight_of k)), pointsEarned = None,
                   cookie = None, issues = None\<rparr> st))
         \<and> analyzeHeaders (createDefaultChecker rt) u
             (filter (\<lambda>kv. toLowerCase (fst kv) \<noteq> k) hs) code
           = map_sum id (\<lambda>r. r\<lparr>headers := (headers r)(k := None)\<rparr>)
               (analyzeHeaders (createDefaultChecker rt) u hs code)"
proof -
  have "\<not> present (normalize hs) k"
    using assms by (simp add: present_def)
  then have "k \<noteq> ''cookieAnalyzer'' \<and> k \<noteq> ''dangerousHeaders'' \<longrightarrow>
            checkHeader (normalize hs) st (k, info)
              = Inr (push_finding
                  \<lparr>header = info_name info, status = Missing, fvalue = None,
                   description = Some (info_description info), finding_issue = None,
                   criticalRating = info_criticalRating info,
                   category = Some (snd (headerWeight_of k)),
                   weight = Some (fst (headerWeight_of k)), pointsEarned = None,
                   cookie = None, issues = None\<rparr> st)"
    using checkHeader_missing [of "normalize hs" k st info] by blast
  with analyzeHeaders_drop [OF assms] show ?thesis by (intro conjI)
qed

theorem empty_value_counts_as_missing_witness:
  "checkHeader (normalize [(''X-Frame-Options'', Str ''''), (''Server'', Str ''nginx'')])
     \<lparr>ls_findings = [], earnedEssentialPoints = 0, earnedAdvancedPoints = 0,
      earnedCorsPoints = 0\<rparr>
     (''x-frame-options'',
      \<lparr>info_name = ''X-Frame-Options'', info_description = ''Prevents clickjacking attacks'',
       info_criticalRating = Medium,
       checkConfiguration = Some (\<lambda>v m. Inl TypeError)\<rparr>)
   = Inr \<lparr>ls_findings =
            [\<lparr>header = ''X-Frame-Options'', status = Missing, fvalue = None,
              description = Some ''Prevents clickjacking attacks'', finding_issue = None,
              criticalRating = Medium, category = Some Essential, weight = Some 10,
              pointsEarned = None, cookie = None, issues = None\<rparr>],
          earnedEssentialPoints = 0, earnedAdvancedPoints = 0, earnedCorsPoints = 0\<rparr>
   \<and> analyzeHeaders (createDefaultChecker sample_runtime) ''https://example.org''
       (filter (\<lambda>kv. toLowerCase (fst kv) \<noteq> ''x-frame-options'')
          [(''X-Frame-Options'', Str ''''), (''Server'', Str ''nginx'')]) 200
     = map_sum id (\<lambda>r. r\<lparr>headers := (headers r)(''x-frame-options'' := None)\<rparr>)
         (analyzeHeaders (createDefaultChecker sample_runtime) ''https://example.org''
            [(''X-Frame-Options'', Str ''''), (''Server'', Str ''nginx'')] 200)"
proof -
  have h: "normalize [(''X-Frame-Options'', Str ''''), (''Server'', Str ''nginx'')]
             ''x-frame-options'' = Some (Str [])"
    by (simp add: normalize_def normalize_step_def char_defs)
  have n: "''x-frame-options'' \<noteq> ''cookieAnalyzer'' \<and> ''x-frame-options'' \<noteq> ''dangerousHeaders''"
    by simp
  have w: "headerWeight_of ''x-frame-options'' = (10, Essential)"
    by (simp add: headerWeight_of_def config_def)
  note t = empty_value_counts_as_missing
             [of "[(''X-Frame-Options'', Str ''''), (''Server'', Str ''nginx'')]" "''x-frame-options''", OF h]
  from mp [OF conjunct1 [OF t] n] w
  have a: "checkHeader (normalize [(''X-Frame-Options'', Str ''''), (''Server'', Str ''nginx'')])
     \<lparr>ls_findings = [], earnedEssentialPoints = 0, earnedAdvancedPoints = 0,
      earnedCorsPoints = 0\<rparr>
     (''x-frame-options'',
      \<lparr>info_name = ''X-Frame-Options'', info_description = ''Prevents clickjacking attacks'',
       info_criticalRating = Medium,
       checkConfiguration = Some (\<lambda>v m. Inl TypeError)\<rparr>)
   = Inr \<lparr>ls_findings =
            [\<lparr>header = ''X-Frame-Options'', status = Missing, fvalue = None,
              description = Some ''Prevents clickjacking attacks'', finding_issue = None,
              criticalRating = Medium, category = Some Essential, weight = Some 10,
              pointsEarned = None, cookie = None, issues = None\<rparr>],
          earnedEssentialPoints = 0, earnedAdvancedPoints = 0, earnedCorsPoints = 0\<rparr>"
    by (simp add: push_finding_def)
  from a conjunct2 [OF t] show ?thesis by (intro conjI)
qed

subsection \<open>Sensitive cookies\<close>





end
